theory Spec2Isabelle
  imports Main "HOL-Library.Sublist"
begin

section \<open>JavaScript values used by the pages\<close>

text \<open>
  Strings are lists of 8-bit characters. The characters that \<^verbatim>\<open>String.prototype.trim\<close>
  and \<^verbatim>\<open>parseInt\<close> skip are, in that range, TAB, LF, VT, FF, CR, SPACE and NBSP (the
  Unicode spaces above U+00FF have no counterpart in \<^typ>\<open>char\<close>).
\<close>

definition is_white :: "char \<Rightarrow> bool" where
  "is_white c = (c \<in> {CHR 0x09, CHR 0x0A, CHR 0x0B, CHR 0x0C, CHR 0x0D, CHR 0x20, CHR 0xA0})"

definition trim :: "string \<Rightarrow> string" where
  "trim s = rev (dropWhile is_white (rev (dropWhile is_white s)))"

text \<open>
  \<^verbatim>\<open>a || b\<close> on a value that is a string, \<^verbatim>\<open>null\<close> or \<^verbatim>\<open>undefined\<close>: the empty string
  is falsy, like the two absent values.
\<close>

definition truthy :: "string option \<Rightarrow> bool" where
  "truthy v = (case v of None \<Rightarrow> False | Some s \<Rightarrow> s \<noteq> [])"

definition or_else :: "string option \<Rightarrow> string \<Rightarrow> string" where
  "or_else v d = (case v of None \<Rightarrow> d | Some s \<Rightarrow> if s \<noteq> [] then s else d)"

text \<open>
  A \<^verbatim>\<open>number\<close> that names a task or a user: an integer, or \<^verbatim>\<open>NaN\<close> (what
  \<^verbatim>\<open>parseInt\<close> gives for a route parameter with no leading digits). Integers are
  unbounded here; the rounding of doubles beyond 2 to the power 53 is not modelled.
\<close>

datatype number = Num int | NaN

function dec :: "nat \<Rightarrow> string" where
  "dec n = (if n < 10 then [''0123456789'' ! n]
            else dec (n div 10) @ [''0123456789'' ! (n mod 10)])"
  by pat_completeness auto
termination
  by (relation "measure (\<lambda>n. n)") auto

declare dec.simps [simp del]

text \<open>
  The text that a template literal inserts for a number: the decimal digits of an integer.
  This is what JavaScript prints for integers of magnitude below ten to the power 21;
  the exponent form it prints from there on is not modelled.
\<close>

fun num_str :: "number \<Rightarrow> string" where
  "num_str NaN = ''NaN''"
| "num_str (Num i) = (if i < 0 then ''-'' @ dec (nat (- i)) else dec (nat i))"

definition digit_of :: "nat \<Rightarrow> char \<Rightarrow> nat option" where
  "digit_of R c =
     (let n = (of_char c :: nat);
          v = (if 48 \<le> n \<and> n \<le> 57 then Some (n - 48)
               else if 97 \<le> n \<and> n \<le> 122 then Some (n - 87)
               else if 65 \<le> n \<and> n \<le> 90 then Some (n - 55)
               else None)
      in case v of None \<Rightarrow> None | Some d \<Rightarrow> if d < R then Some d else None)"

fun digits_value :: "nat \<Rightarrow> string \<Rightarrow> nat option \<Rightarrow> nat option" where
  "digits_value R [] acc = acc"
| "digits_value R (c # cs) acc =
     (case digit_of R c of
        None \<Rightarrow> acc
      | Some d \<Rightarrow> digits_value R cs (Some (R * (case acc of None \<Rightarrow> 0 | Some a \<Rightarrow> a) + d)))"

text \<open>
  \<^verbatim>\<open>parseInt(s)\<close> with no radix: leading white space, an optional sign, an optional
  \<^verbatim>\<open>0x\<close> prefix, then the longest run of digits; \<^verbatim>\<open>NaN\<close> when that run is empty.
  The value is the exact integer the digits denote, which is what JavaScript returns up
  to 2 to the power 53; beyond that JavaScript returns the nearest double.
\<close>

definition parseInt :: "string \<Rightarrow> number" where
  "parseInt s =
     (let s1 = dropWhile is_white s;
          neg = (take 1 s1 = ''-'');
          s2 = (if take 1 s1 = ''+'' \<or> take 1 s1 = ''-'' then drop 1 s1 else s1);
          hex = (take 2 s2 = ''0x'' \<or> take 2 s2 = ''0X'');
          R = (if hex then 16 else 10);
          s3 = (if hex then drop 2 s2 else s2)
      in case digits_value R s3 None of
           None \<Rightarrow> NaN
         | Some n \<Rightarrow> Num (if neg then - int n else int n))"


section \<open>Data model\<close>

datatype task_status = Pending | In_progress | Completed

datatype priority = Low | Medium | High

datatype filter_status = All | FPending | FIn_progress | FCompleted

fun status_str :: "task_status \<Rightarrow> string" where
  "status_str Pending = ''pending''"
| "status_str In_progress = ''in_progress''"
| "status_str Completed = ''completed''"

fun filter_str :: "filter_status \<Rightarrow> string" where
  "filter_str All = ''all''"
| "filter_str FPending = ''pending''"
| "filter_str FIn_progress = ''in_progress''"
| "filter_str FCompleted = ''completed''"

text \<open>The \<^verbatim>\<open>Task\<close> interface of the dashboard and of the task page.\<close>

record task =
  task_id :: number
  task_user_id :: number
  task_title :: string
  task_description :: string
  task_status :: task_status
  task_priority :: priority
  task_due_date :: string
  task_created_at :: string

text \<open>The \<^verbatim>\<open>User\<close> interface; the role is kept as the string the backend sends.\<close>

record user =
  user_id :: number
  user_email :: string
  user_name :: string
  user_role :: string

text \<open>The \<^verbatim>\<open>Task\<close> interface of the admin page, with fewer and looser fields.\<close>

record admin_task =
  atask_id :: number
  atask_user_id :: number
  atask_title :: string
  atask_description :: string
  atask_status :: string
  atask_priority :: string


section \<open>The API client (lib/api.ts)\<close>

record CreateTaskData =
  c_title :: string
  c_description :: string
  c_priority :: priority
  c_due_date :: "string option"

record UpdateTaskData =
  u_title :: "string option"
  u_description :: "string option"
  u_status :: "task_status option"
  u_priority :: "priority option"
  u_due_date :: "string option"

datatype http_method = GET | POST | PUT | DELETE

datatype body =
    NoBody
  | RegisterBody string string string
  | LoginBody string string
  | CreateBody CreateTaskData
  | UpdateBody UpdateTaskData

text \<open>What a call such as \<^verbatim>\<open>api.put(url, data)\<close> hands to the axios instance.\<close>

record axios_config =
  req_method :: http_method
  url :: string
  data :: body

text \<open>
  The request that leaves the instance: the call, the instance's \<^verbatim>\<open>baseURL\<close> and the
  \<^verbatim>\<open>Authorization\<close> header (\<open>None\<close> when the header is not set).
\<close>

record request = axios_config +
  baseURL :: string
  authorization :: "string option"

definition api_get :: "string \<Rightarrow> axios_config" where
  "api_get u = \<lparr>req_method = GET, url = u, data = NoBody\<rparr>"

definition api_post :: "string \<Rightarrow> body \<Rightarrow> axios_config" where
  "api_post u d = \<lparr>req_method = POST, url = u, data = d\<rparr>"

definition api_put :: "string \<Rightarrow> body \<Rightarrow> axios_config" where
  "api_put u d = \<lparr>req_method = PUT, url = u, data = d\<rparr>"

definition api_delete :: "string \<Rightarrow> axios_config" where
  "api_delete u = \<lparr>req_method = DELETE, url = u, data = NoBody\<rparr>"

text \<open>\<^verbatim>\<open>process.env.NEXT_PUBLIC_API_URL || 'http://localhost:8080/api'\<close>\<close>

definition API_URL :: "string option \<Rightarrow> string" where
  "API_URL env = or_else env ''http://localhost:8080/api''"

text \<open>
  The request interceptor; \<open>token\<close> is what \<^verbatim>\<open>localStorage.getItem('token')\<close> returns
  (\<open>None\<close> for \<^verbatim>\<open>null\<close>).
\<close>

definition request_interceptor :: "string option \<Rightarrow> request \<Rightarrow> request" where
  "request_interceptor token config =
     (if truthy token
      then (case token of
              Some t \<Rightarrow> config\<lparr>authorization := Some (''Bearer '' @ t)\<rparr>
            | None \<Rightarrow> config)
      else config)"

text \<open>
  The instance \<^verbatim>\<open>api = axios.create({ baseURL: API_URL })\<close> applied to a call: the
  default is merged in and the interceptor runs.
\<close>

definition api :: "string option \<Rightarrow> string option \<Rightarrow> axios_config \<Rightarrow> request" where
  "api env token c =
     request_interceptor token
       \<lparr>req_method = req_method c, url = url c, data = data c,
        baseURL = API_URL env, authorization = None\<rparr>"

definition authAPI_register :: "string \<Rightarrow> string \<Rightarrow> string \<Rightarrow> axios_config" where
  "authAPI_register email password name = api_post ''/auth/register'' (RegisterBody email password name)"

definition authAPI_login :: "string \<Rightarrow> string \<Rightarrow> axios_config" where
  "authAPI_login email password = api_post ''/auth/login'' (LoginBody email password)"

definition authAPI_getMe :: "axios_config" where
  "authAPI_getMe = api_get ''/auth/me''"

definition taskAPI_create :: "CreateTaskData \<Rightarrow> axios_config" where
  "taskAPI_create d = api_post ''/tasks'' (CreateBody d)"

definition taskAPI_getAll :: "axios_config" where
  "taskAPI_getAll = api_get ''/tasks''"

definition taskAPI_getById :: "number \<Rightarrow> axios_config" where
  "taskAPI_getById i = api_get (''/tasks/'' @ num_str i)"

definition taskAPI_update :: "number \<Rightarrow> UpdateTaskData \<Rightarrow> axios_config" where
  "taskAPI_update i d = api_put (''/tasks/'' @ num_str i) (UpdateBody d)"

definition taskAPI_delete :: "number \<Rightarrow> axios_config" where
  "taskAPI_delete i = api_delete (''/tasks/'' @ num_str i)"

definition adminAPI_getAllUsers :: "axios_config" where
  "adminAPI_getAllUsers = api_get ''/admin/users''"

definition adminAPI_getAllTasks :: "axios_config" where
  "adminAPI_getAllTasks = api_get ''/admin/tasks''"

definition adminAPI_promoteUser :: "number \<Rightarrow> axios_config" where
  "adminAPI_promoteUser userId = api_post (''/admin/promote/'' @ num_str userId) NoBody"

definition adminAPI_deleteTask :: "number \<Rightarrow> axios_config" where
  "adminAPI_deleteTask taskId = api_delete (''/admin/tasks/'' @ num_str taskId)"


section \<open>The browser around a page\<close>

text \<open>
  What a handler can do to the outside: send a request through the axios instance, ask
  the router for another page, call \<^verbatim>\<open>logout\<close> of the authentication context. Each is
  recorded, in order, in \<open>events\<close>.
\<close>

datatype event = Http request | Push string | Logout

record browser =
  NEXT_PUBLIC_API_URL :: "string option"
  token :: "string option"
  events :: "event list"

text \<open>
  \<open>sent w c\<close> is the event of the call \<open>c\<close> going out from the state \<open>w\<close>: the instance reads
  the base URL fixed at build time and the token stored at that moment.
\<close>

definition sent :: "'a browser_scheme \<Rightarrow> axios_config \<Rightarrow> event" where
  "sent w c = Http (api (NEXT_PUBLIC_API_URL w) (token w) c)"

definition send :: "axios_config \<Rightarrow> 'a browser_scheme \<Rightarrow> 'a browser_scheme" where
  "send c w = w\<lparr>events := events w @ [sent w c]\<rparr>"

definition router_push :: "string \<Rightarrow> 'a browser_scheme \<Rightarrow> 'a browser_scheme" where
  "router_push p w = w\<lparr>events := events w @ [Push p]\<rparr>"

definition logout :: "'a browser_scheme \<Rightarrow> 'a browser_scheme" where
  "logout w = w\<lparr>events := events w @ [Logout]\<rparr>"

text \<open>
  How an awaited call ends. A rejection carries what the handlers read from it: whether
  there was a response at all, its status, and \<^verbatim>\<open>response.data.error\<close> when present.
\<close>

datatype failure = NetworkError | HttpError nat "string option"

datatype 'a reply = Fulfilled 'a | Rejected failure

text \<open>\<^verbatim>\<open>response.data || []\<close> for a body that is a list or \<^verbatim>\<open>null\<close>.\<close>

definition data_or_empty :: "'a list option \<Rightarrow> 'a list" where
  "data_or_empty d = (case d of Some xs \<Rightarrow> xs | None \<Rightarrow> [])"

fun response_error :: "failure \<Rightarrow> string option" where
  "response_error NetworkError = None"
| "response_error (HttpError code msg) = msg"


section \<open>The dashboard (app/dashboard/page.tsx)\<close>

record dashboard = browser +
  tasks :: "task list"
  title :: string
  description :: string
  priority :: priority
  dueDate :: string
  error :: string
  tasksLoading :: bool
  showCreateForm :: bool
  filterStatus :: filter_status
  showEditModal :: bool
  editingTask :: "task option"
  editTitle :: string
  editDescription :: string
  editPriority :: priority
  editDueDate :: string

text \<open>The state of a freshly mounted dashboard: the initial values of its \<^verbatim>\<open>useState\<close> calls.\<close>

definition DashboardPage :: "browser \<Rightarrow> dashboard" where
  "DashboardPage b =
     \<lparr>NEXT_PUBLIC_API_URL = NEXT_PUBLIC_API_URL b, token = token b, events = events b,
      tasks = [], title = [], description = [], priority = Medium, dueDate = [],
      error = [], tasksLoading = True, showCreateForm = False, filterStatus = All,
      showEditModal = False, editingTask = None, editTitle = [], editDescription = [],
      editPriority = Medium, editDueDate = []\<rparr>"

text \<open>
  Every handler takes, before the state, the outcome of each call it may await, in the
  order of the calls; \<open>None\<close> as the data of a list is a \<^verbatim>\<open>null\<close> body.
\<close>

definition fetchTasks :: "task list option reply \<Rightarrow> dashboard \<Rightarrow> dashboard" where
  "fetchTasks r w =
     (let w1 = send taskAPI_getAll (w\<lparr>tasksLoading := True\<rparr>);
          w2 = (case r of
                  Fulfilled d \<Rightarrow> w1\<lparr>tasks := data_or_empty d\<rparr>
                | Rejected f \<Rightarrow> w1\<lparr>error := ''Failed to load tasks''\<rparr>)
      in w2\<lparr>tasksLoading := False\<rparr>)"

definition handleCreateTask ::
    "unit reply \<Rightarrow> task list option reply \<Rightarrow> dashboard \<Rightarrow> dashboard" where
  "handleCreateTask r rf w =
     (let w1 = w\<lparr>error := []\<rparr> in
      if trim (title w) = [] then w1\<lparr>error := ''Title is required''\<rparr>
      else
        let w2 = send (taskAPI_create
                   \<lparr>c_title = title w, c_description = description w,
                    c_priority = priority w, c_due_date = Some (dueDate w)\<rparr>) w1
        in case r of
             Fulfilled u \<Rightarrow>
               fetchTasks rf
                 (w2\<lparr>title := [], description := [], priority := Medium, dueDate := [],
                     showCreateForm := False\<rparr>)
           | Rejected f \<Rightarrow>
               w2\<lparr>error := or_else (response_error f) ''Failed to create task''\<rparr>)"

definition handleOpenEdit :: "task \<Rightarrow> dashboard \<Rightarrow> dashboard" where
  "handleOpenEdit t w =
     w\<lparr>editingTask := Some t, editTitle := task_title t,
       editDescription := task_description t, editPriority := task_priority t,
       editDueDate := task_due_date t, showEditModal := True\<rparr>"

definition handleSaveEdit ::
    "unit reply \<Rightarrow> task list option reply \<Rightarrow> dashboard \<Rightarrow> dashboard" where
  "handleSaveEdit r rf w =
     (case editingTask w of
        None \<Rightarrow> w
      | Some t \<Rightarrow>
          let w1 = w\<lparr>error := []\<rparr> in
          if trim (editTitle w) = [] then w1\<lparr>error := ''Title is required''\<rparr>
          else
            let w2 = send (taskAPI_update (task_id t)
                       \<lparr>u_title = Some (editTitle w),
                        u_description = Some (editDescription w),
                        u_status = None,
                        u_priority = Some (editPriority w),
                        u_due_date = Some (editDueDate w)\<rparr>) w1
            in (case r of
                  Fulfilled u \<Rightarrow>
                    fetchTasks rf (w2\<lparr>showEditModal := False, editingTask := None\<rparr>)
                | Rejected f \<Rightarrow>
                    w2\<lparr>error := or_else (response_error f) ''Failed to update task''\<rparr>))"

definition handleUpdateStatus ::
    "unit reply \<Rightarrow> task list option reply \<Rightarrow> number \<Rightarrow> task_status \<Rightarrow> dashboard \<Rightarrow> dashboard"
  where
  "handleUpdateStatus r rf taskId newStatus w =
     (let w1 = send (taskAPI_update taskId
                 \<lparr>u_title = None, u_description = None, u_status = Some newStatus,
                  u_priority = None, u_due_date = None\<rparr>) w
      in case r of
           Fulfilled u \<Rightarrow> fetchTasks rf w1
         | Rejected f \<Rightarrow> w1\<lparr>error := ''Failed to update task status''\<rparr>)"

text \<open>\<open>ok\<close> is the answer to the \<^verbatim>\<open>confirm\<close> dialog.\<close>

definition handleDeleteTask ::
    "bool \<Rightarrow> unit reply \<Rightarrow> task list option reply \<Rightarrow> number \<Rightarrow> dashboard \<Rightarrow> dashboard" where
  "handleDeleteTask ok r rf taskId w =
     (if \<not> ok then w
      else
        let w1 = send (taskAPI_delete taskId) w
        in case r of
             Fulfilled u \<Rightarrow> fetchTasks rf w1
           | Rejected f \<Rightarrow> w1\<lparr>error := ''Failed to delete task''\<rparr>)"

definition handleLogout :: "dashboard \<Rightarrow> dashboard" where
  "handleLogout w = router_push ''/login'' (logout w)"

definition filteredTasks :: "dashboard \<Rightarrow> task list" where
  "filteredTasks w =
     (if filter_str (filterStatus w) = ''all'' then tasks w
      else filter (\<lambda>t. status_str (task_status t) = filter_str (filterStatus w)) (tasks w))"

text \<open>
  The two effects of the page; \<open>authLoading\<close> and \<open>usr\<close> are the \<^verbatim>\<open>loading\<close> and
  \<^verbatim>\<open>user\<close> that \<^verbatim>\<open>useAuth()\<close> gives.
\<close>

definition dashboard_auth_effect :: "bool \<Rightarrow> user option \<Rightarrow> dashboard \<Rightarrow> dashboard" where
  "dashboard_auth_effect authLoading usr w =
     (if \<not> authLoading \<and> usr = None then router_push ''/login'' w else w)"

definition dashboard_user_effect ::
    "user option \<Rightarrow> task list option reply \<Rightarrow> dashboard \<Rightarrow> dashboard" where
  "dashboard_user_effect usr rf w = (if usr \<noteq> None then fetchTasks rf w else w)"


section \<open>The task page (app/tasks/[id]/page.tsx)\<close>

text \<open>
  The fields that share a name with a field of the dashboard carry the prefix \<open>td_\<close>, as
  do the handlers; \<open>params_id\<close> is the route parameter \<^verbatim>\<open>params.id\<close>.
\<close>

record task_detail = browser +
  params_id :: string
  task :: "task option"
  loading :: bool
  td_error :: string
  isEditing :: bool
  td_editTitle :: string
  td_editDescription :: string
  td_editPriority :: priority
  td_editDueDate :: string

definition TaskDetailPage :: "string \<Rightarrow> browser \<Rightarrow> task_detail" where
  "TaskDetailPage param b =
     \<lparr>NEXT_PUBLIC_API_URL = NEXT_PUBLIC_API_URL b, token = token b, events = events b,
      params_id = param, task = None, loading = True, td_error = [], isEditing = False,
      td_editTitle = [], td_editDescription = [], td_editPriority = Medium,
      td_editDueDate = []\<rparr>"

text \<open>
  A \<^verbatim>\<open>null\<close> body (\<open>Fulfilled None\<close>) is stored by \<^verbatim>\<open>setTask\<close>; reading its \<^verbatim>\<open>title\<close> then
  throws inside the \<^verbatim>\<open>try\<close>, so the \<^verbatim>\<open>catch\<close> branch runs.
\<close>

definition fetchTask :: "task option reply \<Rightarrow> task_detail \<Rightarrow> task_detail" where
  "fetchTask r w =
     (let w1 = send (taskAPI_getById (parseInt (params_id w))) (w\<lparr>loading := True\<rparr>);
          w2 = (case r of
                  Fulfilled d \<Rightarrow>
                    (case d of
                       Some t \<Rightarrow>
                         w1\<lparr>task := Some t, td_editTitle := task_title t,
                            td_editDescription := task_description t,
                            td_editPriority := task_priority t,
                            td_editDueDate := task_due_date t\<rparr>
                     | None \<Rightarrow> w1\<lparr>task := None, td_error := ''Failed to load task details''\<rparr>)
                | Rejected f \<Rightarrow> w1\<lparr>td_error := ''Failed to load task details''\<rparr>)
      in w2\<lparr>loading := False\<rparr>)"

definition td_handleSaveEdit ::
    "unit reply \<Rightarrow> task option reply \<Rightarrow> task_detail \<Rightarrow> task_detail" where
  "td_handleSaveEdit r rf w =
     (case task w of
        None \<Rightarrow> w
      | Some t \<Rightarrow>
          let w1 = w\<lparr>td_error := []\<rparr> in
          if trim (td_editTitle w) = [] then w1\<lparr>td_error := ''Title is required''\<rparr>
          else
            let w2 = send (taskAPI_update (task_id t)
                       \<lparr>u_title = Some (td_editTitle w),
                        u_description = Some (td_editDescription w),
                        u_status = None,
                        u_priority = Some (td_editPriority w),
                        u_due_date = Some (td_editDueDate w)\<rparr>) w1
            in (case r of
                  Fulfilled u \<Rightarrow> fetchTask rf (w2\<lparr>isEditing := False\<rparr>)
                | Rejected f \<Rightarrow>
                    w2\<lparr>td_error := or_else (response_error f) ''Failed to update task''\<rparr>))"

definition td_handleUpdateStatus ::
    "unit reply \<Rightarrow> task option reply \<Rightarrow> task_status \<Rightarrow> task_detail \<Rightarrow> task_detail" where
  "td_handleUpdateStatus r rf newStatus w =
     (case task w of
        None \<Rightarrow> w
      | Some t \<Rightarrow>
          let w1 = send (taskAPI_update (task_id t)
                     \<lparr>u_title = None, u_description = None, u_status = Some newStatus,
                      u_priority = None, u_due_date = None\<rparr>) w
          in (case r of
                Fulfilled u \<Rightarrow> fetchTask rf w1
              | Rejected f \<Rightarrow> w1\<lparr>td_error := ''Failed to update status''\<rparr>))"

definition td_handleDeleteTask :: "bool \<Rightarrow> unit reply \<Rightarrow> task_detail \<Rightarrow> task_detail" where
  "td_handleDeleteTask ok r w =
     (if \<not> ok then w
      else
        case task w of
          None \<Rightarrow> w
        | Some t \<Rightarrow>
            let w1 = send (taskAPI_delete (task_id t)) w
            in (case r of
                  Fulfilled u \<Rightarrow> router_push ''/dashboard'' w1
                | Rejected f \<Rightarrow> w1\<lparr>td_error := ''Failed to delete task''\<rparr>))"

definition td_handleLogout :: "task_detail \<Rightarrow> task_detail" where
  "td_handleLogout w = router_push ''/login'' (logout w)"

definition td_auth_effect :: "bool \<Rightarrow> user option \<Rightarrow> task_detail \<Rightarrow> task_detail" where
  "td_auth_effect authLoading usr w =
     (if \<not> authLoading \<and> usr = None then router_push ''/login'' w else w)"

definition td_user_effect ::
    "user option \<Rightarrow> task option reply \<Rightarrow> task_detail \<Rightarrow> task_detail" where
  "td_user_effect usr rf w = (if usr \<noteq> None then fetchTask rf w else w)"


section \<open>The admin page (app/admin/page.tsx)\<close>

datatype tab = Users | Tasks

record admin = browser +
  users :: "user list"
  ad_tasks :: "admin_task list"
  activeTab :: tab
  ad_error :: string
  dataLoading :: bool

definition AdminPage :: "browser \<Rightarrow> admin" where
  "AdminPage b =
     \<lparr>NEXT_PUBLIC_API_URL = NEXT_PUBLIC_API_URL b, token = token b, events = events b,
      users = [], ad_tasks = [], activeTab = Users, ad_error = [], dataLoading = True\<rparr>"

text \<open>
  \<^verbatim>\<open>Promise.all\<close> of the two reads: both requests are sent before either is awaited, and
  one rejection is enough for the \<^verbatim>\<open>catch\<close> branch.
\<close>

definition fetchData ::
    "user list option reply \<Rightarrow> admin_task list option reply \<Rightarrow> admin \<Rightarrow> admin" where
  "fetchData ru rt w =
     (let w1 = send adminAPI_getAllTasks (send adminAPI_getAllUsers (w\<lparr>dataLoading := True\<rparr>));
          w2 = (case ru of
                  Fulfilled du \<Rightarrow>
                    (case rt of
                       Fulfilled dt \<Rightarrow>
                         w1\<lparr>users := data_or_empty du, ad_tasks := data_or_empty dt\<rparr>
                     | Rejected f \<Rightarrow> w1\<lparr>ad_error := ''Failed to load data''\<rparr>)
                | Rejected f \<Rightarrow> w1\<lparr>ad_error := ''Failed to load data''\<rparr>)
      in w2\<lparr>dataLoading := False\<rparr>)"

definition handlePromoteUser ::
    "bool \<Rightarrow> unit reply \<Rightarrow> user list option reply \<Rightarrow> admin_task list option reply \<Rightarrow>
     number \<Rightarrow> admin \<Rightarrow> admin" where
  "handlePromoteUser ok r ru rt userId w =
     (if \<not> ok then w
      else
        let w1 = send (adminAPI_promoteUser userId) w
        in case r of
             Fulfilled u \<Rightarrow> fetchData ru rt w1
           | Rejected f \<Rightarrow> w1\<lparr>ad_error := ''Failed to promote user''\<rparr>)"

definition ad_handleDeleteTask ::
    "bool \<Rightarrow> unit reply \<Rightarrow> user list option reply \<Rightarrow> admin_task list option reply \<Rightarrow>
     number \<Rightarrow> admin \<Rightarrow> admin" where
  "ad_handleDeleteTask ok r ru rt taskId w =
     (if \<not> ok then w
      else
        let w1 = send (adminAPI_deleteTask taskId) w
        in case r of
             Fulfilled u \<Rightarrow> fetchData ru rt w1
           | Rejected f \<Rightarrow> w1\<lparr>ad_error := ''Failed to delete task''\<rparr>)"

definition ad_handleLogout :: "admin \<Rightarrow> admin" where
  "ad_handleLogout w = router_push ''/login'' (logout w)"

definition ad_auth_effect :: "bool \<Rightarrow> user option \<Rightarrow> admin \<Rightarrow> admin" where
  "ad_auth_effect authLoading usr w =
     (if \<not> authLoading \<and> (case usr of None \<Rightarrow> True | Some u \<Rightarrow> user_role u \<noteq> ''admin'')
      then router_push ''/dashboard'' w else w)"

definition ad_user_effect ::
    "user option \<Rightarrow> user list option reply \<Rightarrow> admin_task list option reply \<Rightarrow> admin \<Rightarrow> admin"
  where
  "ad_user_effect usr ru rt w =
     (case usr of
        None \<Rightarrow> w
      | Some u \<Rightarrow> if user_role u = ''admin'' then fetchData ru rt w else w)"


section \<open>The root page (app/page.tsx)\<close>

definition Home :: "bool \<Rightarrow> user option \<Rightarrow> browser \<Rightarrow> browser" where
  "Home authLoading usr w =
     (if \<not> authLoading then
        (case usr of
           Some u \<Rightarrow>
             if user_role u = ''admin'' then router_push ''/admin'' w
             else router_push ''/dashboard'' w
         | None \<Rightarrow> router_push ''/login'' w)
      else w)"


section \<open>Example values\<close>

definition ex_browser :: browser where
  "ex_browser = \<lparr>NEXT_PUBLIC_API_URL = None, token = Some ''abc'', events = []\<rparr>"

definition ex_task :: task where
  "ex_task =
     \<lparr>task_id = Num 7, task_user_id = Num 1, task_title = ''Buy milk'',
      task_description = [], task_status = Pending, task_priority = Low,
      task_due_date = [], task_created_at = ''2024-05-01''\<rparr>"

definition ex_done :: task where
  "ex_done =
     \<lparr>task_id = Num 8, task_user_id = Num 1, task_title = ''Pay rent'',
      task_description = ''before Friday'', task_status = Completed, task_priority = High,
      task_due_date = ''2024-05-03'', task_created_at = ''2024-04-28''\<rparr>"

definition ex_member :: user where
  "ex_member =
     \<lparr>user_id = Num 1, user_email = ''ann@example.org'', user_name = ''Ann'',
      user_role = ''user''\<rparr>"

definition ex_admin :: user where
  "ex_admin =
     \<lparr>user_id = Num 2, user_email = ''bob@example.org'', user_name = ''Bob'',
      user_role = ''admin''\<rparr>"

definition ex_admin_task :: admin_task where
  "ex_admin_task =
     \<lparr>atask_id = Num 7, atask_user_id = Num 1, atask_title = ''Buy milk'',
      atask_description = [], atask_status = ''pending'', atask_priority = ''low''\<rparr>"

text \<open>A dashboard showing one task, with a title typed into the creation form.\<close>

definition ex_dashboard :: dashboard where
  "ex_dashboard = (DashboardPage ex_browser)\<lparr>tasks := [ex_task], title := ''Call mum''\<rparr>"

text \<open>The same dashboard with the edit dialog open on its task.\<close>

definition ex_editing :: dashboard where
  "ex_editing = handleOpenEdit ex_task ex_dashboard"

text \<open>The task page of task 7, loaded, once in viewing and once in editing state.\<close>

definition ex_detail :: task_detail where
  "ex_detail = fetchTask (Fulfilled (Some ex_task)) (TaskDetailPage ''7'' ex_browser)"

definition ex_detail_editing :: task_detail where
  "ex_detail_editing = ex_detail\<lparr>isEditing := True, td_editTitle := ''Buy oat milk''\<rparr>"

definition ex_admin_page :: admin where
  "ex_admin_page = (AdminPage ex_browser)\<lparr>users := [ex_member], ad_tasks := [ex_admin_task]\<rparr>"

section \<open>Auxiliary facts\<close>

lemma trim_empty_iff: "trim s = [] \<longleftrightarrow> (\<forall>c\<in>set s. is_white c)"
proof -
  have "trim s = [] \<longleftrightarrow> (\<forall>c\<in>set (dropWhile is_white s). is_white c)"
    by (simp add: trim_def)
  also have "\<dots> \<longleftrightarrow> dropWhile is_white (dropWhile is_white s) = []"
    by (simp only: dropWhile_eq_Nil_conv)
  also have "\<dots> \<longleftrightarrow> (\<forall>c\<in>set s. is_white c)"
    by simp
  finally show ?thesis .
qed

lemma or_else_nonempty: "d \<noteq> [] \<Longrightarrow> or_else v d \<noteq> []"
  by (simp add: or_else_def split: option.splits)

lemma status_str_eq:
  "status_str s = ''pending'' \<longleftrightarrow> s = Pending"
  "status_str s = ''in_progress'' \<longleftrightarrow> s = In_progress"
  "status_str s = ''completed'' \<longleftrightarrow> s = Completed"
  by (cases s; simp)+

lemma num_str_7: "num_str (Num 7) = ''7''"
  by (simp add: dec.simps)

lemma parseInt_7: "parseInt ''7'' = Num 7"
  by (simp add: parseInt_def is_white_def digit_of_def)

text \<open>What the example browser sends: the default base URL and its token.\<close>

lemma ex_sent:
  "NEXT_PUBLIC_API_URL w = None \<Longrightarrow> token w = Some ''abc'' \<Longrightarrow>
   sent w c =
     Http \<lparr>req_method = req_method c, url = url c, data = data c,
           baseURL = ''http://localhost:8080/api'', authorization = Some ''Bearer abc''\<rparr>"
  by (simp add: sent_def api_def request_interceptor_def truthy_def API_URL_def or_else_def)

subsection \<open>The fetches\<close>

lemma fetchTasks_events: "events (fetchTasks rf w) = events w @ [sent w taskAPI_getAll]"
  by (simp add: fetchTasks_def send_def sent_def Let_def split: reply.splits)

lemma fetchTasks_tasks:
  "tasks (fetchTasks (Fulfilled d) w) = data_or_empty d"
  "tasks (fetchTasks (Rejected f) w) = tasks w"
  by (simp_all add: fetchTasks_def send_def Let_def)

lemma fetchTask_events:
  "events (fetchTask rf w) = events w @ [sent w (taskAPI_getById (parseInt (params_id w)))]"
  by (simp add: fetchTask_def send_def sent_def Let_def split: reply.splits option.splits)

lemma fetchTask_task:
  "task (fetchTask (Fulfilled d) w) = d"
  "task (fetchTask (Rejected f) w) = task w"
  by (simp_all add: fetchTask_def send_def Let_def split: option.splits)

lemma fetchData_events:
  "events (fetchData ru rt w)
     = events w @ [sent w adminAPI_getAllUsers, sent w adminAPI_getAllTasks]"
  by (simp add: fetchData_def send_def sent_def Let_def split: reply.splits)

lemma fetchData_lists:
  "users (fetchData (Fulfilled du) (Fulfilled dt) w) = data_or_empty du"
  "ad_tasks (fetchData (Fulfilled du) (Fulfilled dt) w) = data_or_empty dt"
  "users (fetchData (Rejected f) rt w) = users w"
  "ad_tasks (fetchData (Rejected f) rt w) = ad_tasks w"
  "users (fetchData ru (Rejected f) w) = users w"
  "ad_tasks (fetchData ru (Rejected f) w) = ad_tasks w"
  by (simp_all add: fetchData_def send_def Let_def split: reply.splits)

subsection \<open>The example states\<close>

lemma ex_dashboard_fields:
  "NEXT_PUBLIC_API_URL ex_dashboard = None" "token ex_dashboard = Some ''abc''"
  "events ex_dashboard = []" "tasks ex_dashboard = [ex_task]" "title ex_dashboard = ''Call mum''"
  "description ex_dashboard = []" "priority ex_dashboard = Medium" "dueDate ex_dashboard = []"
  "error ex_dashboard = []" "editingTask ex_dashboard = None"
  "showEditModal ex_dashboard = False" "filterStatus ex_dashboard = All"
  by (simp_all add: ex_dashboard_def DashboardPage_def ex_browser_def)

lemma ex_editing_fields:
  "NEXT_PUBLIC_API_URL ex_editing = None" "token ex_editing = Some ''abc''"
  "events ex_editing = []" "tasks ex_editing = [ex_task]" "error ex_editing = []"
  "editingTask ex_editing = Some ex_task" "showEditModal ex_editing = True"
  "editTitle ex_editing = ''Buy milk''" "editDescription ex_editing = []"
  "editPriority ex_editing = Low" "editDueDate ex_editing = []"
  by (simp_all add: ex_editing_def handleOpenEdit_def ex_dashboard_fields ex_task_def)

lemma ex_detail_fields:
  "NEXT_PUBLIC_API_URL ex_detail = None" "token ex_detail = Some ''abc''"
  "params_id ex_detail = ''7''" "task ex_detail = Some ex_task" "td_error ex_detail = []"
  "isEditing ex_detail = False" "td_editTitle ex_detail = ''Buy milk''"
  "td_editDescription ex_detail = []" "td_editPriority ex_detail = Low"
  "td_editDueDate ex_detail = []"
  by (simp_all add: ex_detail_def fetchTask_def TaskDetailPage_def send_def ex_browser_def
      ex_task_def)

lemma ex_detail_editing_fields:
  "NEXT_PUBLIC_API_URL ex_detail_editing = None" "token ex_detail_editing = Some ''abc''"
  "params_id ex_detail_editing = ''7''" "task ex_detail_editing = Some ex_task"
  "td_error ex_detail_editing = []" "isEditing ex_detail_editing = True"
  "td_editTitle ex_detail_editing = ''Buy oat milk''"
  "td_editDescription ex_detail_editing = []" "td_editPriority ex_detail_editing = Low"
  "td_editDueDate ex_detail_editing = []"
  by (simp_all add: ex_detail_editing_def ex_detail_fields)

lemma ex_admin_page_fields:
  "NEXT_PUBLIC_API_URL ex_admin_page = None" "token ex_admin_page = Some ''abc''"
  "events ex_admin_page = []" "users ex_admin_page = [ex_member]"
  "ad_tasks ex_admin_page = [ex_admin_task]" "ad_error ex_admin_page = []"
  by (simp_all add: ex_admin_page_def AdminPage_def ex_browser_def)

lemma trim_examples:
  "trim ''Call mum'' = ''Call mum''" "trim ''Buy milk'' = ''Buy milk''"
  "trim ''Buy oat milk'' = ''Buy oat milk''" "trim ''  '' = []" "trim [] = []"
  by (simp_all add: trim_def is_white_def)


section \<open>Rejected calls (C1)\<close>

text \<open>
  C1, as stated, does not hold. The claim: every authenticated call that the backend
  rejects with a 401 clears the session and redirects to the login page instead of showing
  an inline message. Here the backend answers the dashboard's \<^verbatim>\<open>GET /tasks\<close> and the task
  page's \<^verbatim>\<open>GET /tasks/7\<close> with status 401. Each page ends with its inline message set; the
  only event is the request itself, so \<^verbatim>\<open>logout\<close> was not called and the router was not
  asked for \<^verbatim>\<open>/login\<close>; the token is still stored.
\<close>

theorem unauthorized_reply_counterexample:
  "error (fetchTasks (Rejected (HttpError 401 (Some ''token expired''))) (DashboardPage ex_browser))
     = ''Failed to load tasks''
   \<and> events (fetchTasks (Rejected (HttpError 401 (Some ''token expired''))) (DashboardPage ex_browser))
     = [Http \<lparr>req_method = GET, url = ''/tasks'', data = NoBody,
               baseURL = ''http://localhost:8080/api'', authorization = Some ''Bearer abc''\<rparr>]
   \<and> token (fetchTasks (Rejected (HttpError 401 (Some ''token expired''))) (DashboardPage ex_browser))
     = Some ''abc''
   \<and> td_error (fetchTask (Rejected (HttpError 401 None)) (TaskDetailPage ''7'' ex_browser))
     = ''Failed to load task details''
   \<and> events (fetchTask (Rejected (HttpError 401 None)) (TaskDetailPage ''7'' ex_browser))
     = [Http \<lparr>req_method = GET, url = ''/tasks/7'', data = NoBody,
               baseURL = ''http://localhost:8080/api'', authorization = Some ''Bearer abc''\<rparr>]
   \<and> token (fetchTask (Rejected (HttpError 401 None)) (TaskDetailPage ''7'' ex_browser))
     = Some ''abc''"
  by (simp add: fetchTasks_def fetchTask_def send_def DashboardPage_def TaskDetailPage_def
      ex_browser_def ex_sent taskAPI_getAll_def taskAPI_getById_def api_get_def parseInt_7
      dec.simps)

text \<open>
  C1, amended. When the backend rejects a call made by a page, whatever the failure \<open>f\<close>
  (a 401 included), the page's state changes in two places only: the request is appended
  to the events, and the page's inline error message is set (the fetches also clear their
  loading flag). So the handler calls neither \<^verbatim>\<open>logout\<close> nor the router, and the stored
  token stays. The message of a rejected create or save is the backend's
  \<^verbatim>\<open>response.data.error\<close> when that is a non-empty string and a fixed text otherwise; it
  is never empty.
\<close>

theorem rejected_call_sets_inline_error:
  fixes w :: dashboard and wd :: task_detail and wa :: admin and f :: failure
  shows
  "fetchTasks (Rejected f) w
     = w\<lparr>events := events w @ [sent w taskAPI_getAll],
          error := ''Failed to load tasks'', tasksLoading := False\<rparr>
   \<and> (trim (title w) \<noteq> [] \<longrightarrow>
        handleCreateTask (Rejected f) rf w
          = w\<lparr>events := events w @ [sent w (taskAPI_create
                 \<lparr>c_title = title w, c_description = description w,
                  c_priority = priority w, c_due_date = Some (dueDate w)\<rparr>)],
               error := or_else (response_error f) ''Failed to create task''\<rparr>)
   \<and> (editingTask w = Some t \<and> trim (editTitle w) \<noteq> [] \<longrightarrow>
        handleSaveEdit (Rejected f) rf w
          = w\<lparr>events := events w @ [sent w (taskAPI_update (task_id t)
                 \<lparr>u_title = Some (editTitle w), u_description = Some (editDescription w),
                  u_status = None, u_priority = Some (editPriority w),
                  u_due_date = Some (editDueDate w)\<rparr>)],
               error := or_else (response_error f) ''Failed to update task''\<rparr>)
   \<and> handleUpdateStatus (Rejected f) rf i s w
        = w\<lparr>events := events w @ [sent w (taskAPI_update i
               \<lparr>u_title = None, u_description = None, u_status = Some s,
                u_priority = None, u_due_date = None\<rparr>)],
             error := ''Failed to update task status''\<rparr>
   \<and> handleDeleteTask True (Rejected f) rf i w
        = w\<lparr>events := events w @ [sent w (taskAPI_delete i)],
             error := ''Failed to delete task''\<rparr>
   \<and> fetchTask (Rejected f) wd
        = wd\<lparr>events := events wd @ [sent wd (taskAPI_getById (parseInt (params_id wd)))],
              td_error := ''Failed to load task details'', loading := False\<rparr>
   \<and> (task wd = Some td \<and> trim (td_editTitle wd) \<noteq> [] \<longrightarrow>
        td_handleSaveEdit (Rejected f) rfd wd
          = wd\<lparr>events := events wd @ [sent wd (taskAPI_update (task_id td)
                  \<lparr>u_title = Some (td_editTitle wd),
                   u_description = Some (td_editDescription wd), u_status = None,
                   u_priority = Some (td_editPriority wd),
                   u_due_date = Some (td_editDueDate wd)\<rparr>)],
                td_error := or_else (response_error f) ''Failed to update task''\<rparr>)
   \<and> (task wd = Some td \<longrightarrow>
        td_handleUpdateStatus (Rejected f) rfd s wd
          = wd\<lparr>events := events wd @ [sent wd (taskAPI_update (task_id td)
                  \<lparr>u_title = None, u_description = None, u_status = Some s,
                   u_priority = None, u_due_date = None\<rparr>)],
                td_error := ''Failed to update status''\<rparr>)
   \<and> (task wd = Some td \<longrightarrow>
        td_handleDeleteTask True (Rejected f) wd
          = wd\<lparr>events := events wd @ [sent wd (taskAPI_delete (task_id td))],
                td_error := ''Failed to delete task''\<rparr>)
   \<and> fetchData (Rejected f) rt wa
        = wa\<lparr>events := events wa @ [sent wa adminAPI_getAllUsers, sent wa adminAPI_getAllTasks],
              ad_error := ''Failed to load data'', dataLoading := False\<rparr>
   \<and> fetchData ru (Rejected f) wa
        = wa\<lparr>events := events wa @ [sent wa adminAPI_getAllUsers, sent wa adminAPI_getAllTasks],
              ad_error := ''Failed to load data'', dataLoading := False\<rparr>
   \<and> handlePromoteUser True (Rejected f) ru rt i wa
        = wa\<lparr>events := events wa @ [sent wa (adminAPI_promoteUser i)],
              ad_error := ''Failed to promote user''\<rparr>
   \<and> ad_handleDeleteTask True (Rejected f) ru rt i wa
        = wa\<lparr>events := events wa @ [sent wa (adminAPI_deleteTask i)],
              ad_error := ''Failed to delete task''\<rparr>
   \<and> or_else (response_error f) ''Failed to create task'' \<noteq> []
   \<and> or_else (response_error f) ''Failed to update task'' \<noteq> []"
proof -
  have dash:
    "fetchTasks (Rejected f) w
       = w\<lparr>events := events w @ [sent w taskAPI_getAll],
            error := ''Failed to load tasks'', tasksLoading := False\<rparr>"
    "handleUpdateStatus (Rejected f) rf i s w
       = w\<lparr>events := events w @ [sent w (taskAPI_update i
              \<lparr>u_title = None, u_description = None, u_status = Some s,
               u_priority = None, u_due_date = None\<rparr>)],
            error := ''Failed to update task status''\<rparr>"
    "handleDeleteTask True (Rejected f) rf i w
       = w\<lparr>events := events w @ [sent w (taskAPI_delete i)],
            error := ''Failed to delete task''\<rparr>"
    by (simp_all add: fetchTasks_def handleUpdateStatus_def handleDeleteTask_def send_def
        sent_def)
  have dash_forms:
    "trim (title w) \<noteq> [] \<longrightarrow>
       handleCreateTask (Rejected f) rf w
         = w\<lparr>events := events w @ [sent w (taskAPI_create
                \<lparr>c_title = title w, c_description = description w,
                 c_priority = priority w, c_due_date = Some (dueDate w)\<rparr>)],
              error := or_else (response_error f) ''Failed to create task''\<rparr>"
    "editingTask w = Some t \<and> trim (editTitle w) \<noteq> [] \<longrightarrow>
       handleSaveEdit (Rejected f) rf w
         = w\<lparr>events := events w @ [sent w (taskAPI_update (task_id t)
                \<lparr>u_title = Some (editTitle w), u_description = Some (editDescription w),
                 u_status = None, u_priority = Some (editPriority w),
                 u_due_date = Some (editDueDate w)\<rparr>)],
              error := or_else (response_error f) ''Failed to update task''\<rparr>"
    by (simp_all add: handleCreateTask_def handleSaveEdit_def send_def sent_def)
  have detail:
    "fetchTask (Rejected f) wd
       = wd\<lparr>events := events wd @ [sent wd (taskAPI_getById (parseInt (params_id wd)))],
             td_error := ''Failed to load task details'', loading := False\<rparr>"
    "task wd = Some td \<and> trim (td_editTitle wd) \<noteq> [] \<longrightarrow>
       td_handleSaveEdit (Rejected f) rfd wd
         = wd\<lparr>events := events wd @ [sent wd (taskAPI_update (task_id td)
                 \<lparr>u_title = Some (td_editTitle wd),
                  u_description = Some (td_editDescription wd), u_status = None,
                  u_priority = Some (td_editPriority wd),
                  u_due_date = Some (td_editDueDate wd)\<rparr>)],
               td_error := or_else (response_error f) ''Failed to update task''\<rparr>"
    "task wd = Some td \<longrightarrow>
       td_handleUpdateStatus (Rejected f) rfd s wd
         = wd\<lparr>events := events wd @ [sent wd (taskAPI_update (task_id td)
                 \<lparr>u_title = None, u_description = None, u_status = Some s,
                  u_priority = None, u_due_date = None\<rparr>)],
               td_error := ''Failed to update status''\<rparr>"
    "task wd = Some td \<longrightarrow>
       td_handleDeleteTask True (Rejected f) wd
         = wd\<lparr>events := events wd @ [sent wd (taskAPI_delete (task_id td))],
               td_error := ''Failed to delete task''\<rparr>"
    by (simp_all add: fetchTask_def td_handleSaveEdit_def td_handleUpdateStatus_def
        td_handleDeleteTask_def send_def sent_def)
  have adm:
    "fetchData (Rejected f) rt wa
       = wa\<lparr>events := events wa @ [sent wa adminAPI_getAllUsers, sent wa adminAPI_getAllTasks],
             ad_error := ''Failed to load data'', dataLoading := False\<rparr>"
    "fetchData ru (Rejected f) wa
       = wa\<lparr>events := events wa @ [sent wa adminAPI_getAllUsers, sent wa adminAPI_getAllTasks],
             ad_error := ''Failed to load data'', dataLoading := False\<rparr>"
    "handlePromoteUser True (Rejected f) ru rt i wa
       = wa\<lparr>events := events wa @ [sent wa (adminAPI_promoteUser i)],
             ad_error := ''Failed to promote user''\<rparr>"
    "ad_handleDeleteTask True (Rejected f) ru rt i wa
       = wa\<lparr>events := events wa @ [sent wa (adminAPI_deleteTask i)],
             ad_error := ''Failed to delete task''\<rparr>"
    by (simp_all add: fetchData_def handlePromoteUser_def ad_handleDeleteTask_def send_def
        sent_def Let_def split: reply.splits)
  have msgs:
    "or_else (response_error f) ''Failed to create task'' \<noteq> []"
    "or_else (response_error f) ''Failed to update task'' \<noteq> []"
    by (simp_all add: or_else_nonempty)
  from dash dash_forms detail adm msgs show ?thesis
    by (intro conjI)
qed

text \<open>
  The amended statement at work: the edit dialog of the example dashboard and the editing
  task page each get a 401 carrying a message for their save, and the admin page a 401
  for its first read.
\<close>

theorem rejected_call_sets_inline_error_witness:
  "handleSaveEdit (Rejected (HttpError 401 (Some ''token expired''))) (Fulfilled None) ex_editing
     = ex_editing\<lparr>events := [Http \<lparr>req_method = PUT, url = ''/tasks/7'',
          data = UpdateBody \<lparr>u_title = Some ''Buy milk'', u_description = Some [],
                   u_status = None, u_priority = Some Low, u_due_date = Some []\<rparr>,
          baseURL = ''http://localhost:8080/api'', authorization = Some ''Bearer abc''\<rparr>],
        error := ''token expired''\<rparr>
   \<and> td_error (td_handleSaveEdit (Rejected (HttpError 401 None)) (Fulfilled None) ex_detail_editing)
     = ''Failed to update task''
   \<and> ad_error (fetchData (Rejected (HttpError 401 None)) (Fulfilled None) ex_admin_page)
     = ''Failed to load data''"
  using rejected_call_sets_inline_error
    [where w = ex_editing and t = ex_task and wd = ex_detail_editing and td = ex_task
       and wa = ex_admin_page and f = "HttpError 401 (Some ''token expired'')"
       and rf = "Fulfilled None"]
    rejected_call_sets_inline_error
    [where wd = ex_detail_editing and td = ex_task and wa = ex_admin_page
       and f = "HttpError 401 None" and rfd = "Fulfilled None" and rt = "Fulfilled None"]
  by (simp add: ex_editing_fields ex_detail_editing_fields ex_admin_page_fields trim_examples
      ex_sent taskAPI_update_def api_put_def dec.simps ex_task_def or_else_def)

section \<open>Mutations and refetches (C2)\<close>

text \<open>
  C2, as stated, does not hold. The claim: every successful mutation is followed by a
  full refetch of the affected collection, and no component keeps a local copy of server
  data across the mutation. First, the task page has loaded task 7 and its delete
  succeeds: after the \<^verbatim>\<open>DELETE\<close> the handler asks the router for \<^verbatim>\<open>/dashboard\<close> and sends
  no further request. Second, the dashboard shows task 7, its delete succeeds and the
  refetch that follows is rejected: the dashboard still holds the deleted task.
\<close>

theorem mutation_refetch_counterexample:
  "events (td_handleDeleteTask True (Fulfilled ()) ex_detail)
     = [Http \<lparr>req_method = GET, url = ''/tasks/7'', data = NoBody,
               baseURL = ''http://localhost:8080/api'', authorization = Some ''Bearer abc''\<rparr>,
        Http \<lparr>req_method = DELETE, url = ''/tasks/7'', data = NoBody,
               baseURL = ''http://localhost:8080/api'', authorization = Some ''Bearer abc''\<rparr>,
        Push ''/dashboard'']
   \<and> events (handleDeleteTask True (Fulfilled ()) (Rejected NetworkError) (Num 7) ex_dashboard)
     = [Http \<lparr>req_method = DELETE, url = ''/tasks/7'', data = NoBody,
               baseURL = ''http://localhost:8080/api'', authorization = Some ''Bearer abc''\<rparr>,
        Http \<lparr>req_method = GET, url = ''/tasks'', data = NoBody,
               baseURL = ''http://localhost:8080/api'', authorization = Some ''Bearer abc''\<rparr>]
   \<and> tasks (handleDeleteTask True (Fulfilled ()) (Rejected NetworkError) (Num 7) ex_dashboard)
     = [ex_task]"
  by (simp add: td_handleDeleteTask_def handleDeleteTask_def ex_detail_def fetchTask_def
      fetchTasks_def TaskDetailPage_def ex_dashboard_def DashboardPage_def send_def
      router_push_def ex_browser_def ex_sent taskAPI_delete_def taskAPI_getById_def
      taskAPI_getAll_def api_get_def api_delete_def parseInt_7 dec.simps ex_task_def)

text \<open>
  C2, amended. On the dashboard and on the admin page, every mutation that succeeds
  (create, full-field edit save, status change, delete, promote, force-delete) is followed
  at once by the refetch of the page's collections: \<^verbatim>\<open>GET /tasks\<close>, respectively
  \<^verbatim>\<open>GET /admin/users\<close> and \<^verbatim>\<open>GET /admin/tasks\<close>. When the refetch succeeds, the stored
  collection is the delivered one and nothing else; when it is rejected, the collection
  stored before the mutation stays. On the task page a successful save or status change
  is followed by the refetch of that one task (\<^verbatim>\<open>GET /tasks/{id}\<close>, the id read from the
  route), and a successful delete by the move to \<^verbatim>\<open>/dashboard\<close>, with no refetch by
  the handler; a dashboard that is mounted with a resolved user fetches the list.
\<close>

theorem mutation_then_refetch:
  fixes w :: dashboard and wa :: admin and wd :: task_detail and u :: unit
  shows
  "(trim (title w) \<noteq> [] \<longrightarrow>
      events (handleCreateTask (Fulfilled u) rf w)
        = events w @ [sent w (taskAPI_create
             \<lparr>c_title = title w, c_description = description w,
              c_priority = priority w, c_due_date = Some (dueDate w)\<rparr>),
            sent w taskAPI_getAll]
      \<and> tasks (handleCreateTask (Fulfilled u) (Fulfilled d) w) = data_or_empty d
      \<and> tasks (handleCreateTask (Fulfilled u) (Rejected f) w) = tasks w)
   \<and> (editingTask w = Some t \<and> trim (editTitle w) \<noteq> [] \<longrightarrow>
      events (handleSaveEdit (Fulfilled u) rf w)
        = events w @ [sent w (taskAPI_update (task_id t)
             \<lparr>u_title = Some (editTitle w), u_description = Some (editDescription w),
              u_status = None, u_priority = Some (editPriority w),
              u_due_date = Some (editDueDate w)\<rparr>),
            sent w taskAPI_getAll]
      \<and> tasks (handleSaveEdit (Fulfilled u) (Fulfilled d) w) = data_or_empty d
      \<and> tasks (handleSaveEdit (Fulfilled u) (Rejected f) w) = tasks w)
   \<and> events (handleUpdateStatus (Fulfilled u) rf i s w)
        = events w @ [sent w (taskAPI_update i
             \<lparr>u_title = None, u_description = None, u_status = Some s,
              u_priority = None, u_due_date = None\<rparr>),
            sent w taskAPI_getAll]
   \<and> tasks (handleUpdateStatus (Fulfilled u) (Fulfilled d) i s w) = data_or_empty d
   \<and> tasks (handleUpdateStatus (Fulfilled u) (Rejected f) i s w) = tasks w
   \<and> events (handleDeleteTask True (Fulfilled u) rf i w)
        = events w @ [sent w (taskAPI_delete i), sent w taskAPI_getAll]
   \<and> tasks (handleDeleteTask True (Fulfilled u) (Fulfilled d) i w) = data_or_empty d
   \<and> tasks (handleDeleteTask True (Fulfilled u) (Rejected f) i w) = tasks w
   \<and> events (handlePromoteUser True (Fulfilled u) ru rt i wa)
        = events wa @ [sent wa (adminAPI_promoteUser i),
            sent wa adminAPI_getAllUsers, sent wa adminAPI_getAllTasks]
   \<and> users (handlePromoteUser True (Fulfilled u) (Fulfilled du) (Fulfilled dt) i wa)
        = data_or_empty du
   \<and> ad_tasks (handlePromoteUser True (Fulfilled u) (Fulfilled du) (Fulfilled dt) i wa)
        = data_or_empty dt
   \<and> users (handlePromoteUser True (Fulfilled u) (Rejected f) rt i wa) = users wa
   \<and> ad_tasks (handlePromoteUser True (Fulfilled u) (Rejected f) rt i wa) = ad_tasks wa
   \<and> users (handlePromoteUser True (Fulfilled u) ru (Rejected f) i wa) = users wa
   \<and> ad_tasks (handlePromoteUser True (Fulfilled u) ru (Rejected f) i wa) = ad_tasks wa
   \<and> events (ad_handleDeleteTask True (Fulfilled u) ru rt i wa)
        = events wa @ [sent wa (adminAPI_deleteTask i),
            sent wa adminAPI_getAllUsers, sent wa adminAPI_getAllTasks]
   \<and> users (ad_handleDeleteTask True (Fulfilled u) (Fulfilled du) (Fulfilled dt) i wa)
        = data_or_empty du
   \<and> ad_tasks (ad_handleDeleteTask True (Fulfilled u) (Fulfilled du) (Fulfilled dt) i wa)
        = data_or_empty dt
   \<and> users (ad_handleDeleteTask True (Fulfilled u) (Rejected f) rt i wa) = users wa
   \<and> ad_tasks (ad_handleDeleteTask True (Fulfilled u) (Rejected f) rt i wa) = ad_tasks wa
   \<and> users (ad_handleDeleteTask True (Fulfilled u) ru (Rejected f) i wa) = users wa
   \<and> ad_tasks (ad_handleDeleteTask True (Fulfilled u) ru (Rejected f) i wa) = ad_tasks wa
   \<and> (task wd = Some td \<and> trim (td_editTitle wd) \<noteq> [] \<longrightarrow>
      events (td_handleSaveEdit (Fulfilled u) rfd wd)
        = events wd @ [sent wd (taskAPI_update (task_id td)
             \<lparr>u_title = Some (td_editTitle wd),
              u_description = Some (td_editDescription wd), u_status = None,
              u_priority = Some (td_editPriority wd),
              u_due_date = Some (td_editDueDate wd)\<rparr>),
            sent wd (taskAPI_getById (parseInt (params_id wd)))]
      \<and> task (td_handleSaveEdit (Fulfilled u) (Fulfilled dd) wd) = dd
      \<and> task (td_handleSaveEdit (Fulfilled u) (Rejected f) wd) = Some td)
   \<and> (task wd = Some td \<longrightarrow>
      events (td_handleUpdateStatus (Fulfilled u) rfd s wd)
        = events wd @ [sent wd (taskAPI_update (task_id td)
             \<lparr>u_title = None, u_description = None, u_status = Some s,
              u_priority = None, u_due_date = None\<rparr>),
            sent wd (taskAPI_getById (parseInt (params_id wd)))]
      \<and> task (td_handleUpdateStatus (Fulfilled u) (Fulfilled dd) s wd) = dd
      \<and> task (td_handleUpdateStatus (Fulfilled u) (Rejected f) s wd) = Some td)
   \<and> (task wd = Some td \<longrightarrow>
      events (td_handleDeleteTask True (Fulfilled u) wd)
        = events wd @ [sent wd (taskAPI_delete (task_id td)), Push ''/dashboard''])
   \<and> events (dashboard_user_effect (Some usr) rf (DashboardPage b))
        = events b @ [sent b taskAPI_getAll]
   \<and> tasks (dashboard_user_effect (Some usr) (Fulfilled d) (DashboardPage b))
        = data_or_empty d"
proof -
  have create:
    "trim (title w) \<noteq> [] \<longrightarrow>
      events (handleCreateTask (Fulfilled u) rf w)
        = events w @ [sent w (taskAPI_create
             \<lparr>c_title = title w, c_description = description w,
              c_priority = priority w, c_due_date = Some (dueDate w)\<rparr>),
            sent w taskAPI_getAll]
      \<and> tasks (handleCreateTask (Fulfilled u) (Fulfilled d) w) = data_or_empty d
      \<and> tasks (handleCreateTask (Fulfilled u) (Rejected f) w) = tasks w"
    by (simp add: handleCreateTask_def fetchTasks_events fetchTasks_tasks send_def sent_def)
  have save:
    "editingTask w = Some t \<and> trim (editTitle w) \<noteq> [] \<longrightarrow>
      events (handleSaveEdit (Fulfilled u) rf w)
        = events w @ [sent w (taskAPI_update (task_id t)
             \<lparr>u_title = Some (editTitle w), u_description = Some (editDescription w),
              u_status = None, u_priority = Some (editPriority w),
              u_due_date = Some (editDueDate w)\<rparr>),
            sent w taskAPI_getAll]
      \<and> tasks (handleSaveEdit (Fulfilled u) (Fulfilled d) w) = data_or_empty d
      \<and> tasks (handleSaveEdit (Fulfilled u) (Rejected f) w) = tasks w"
    by (simp add: handleSaveEdit_def fetchTasks_events fetchTasks_tasks send_def sent_def)
  have status:
    "events (handleUpdateStatus (Fulfilled u) rf i s w)
        = events w @ [sent w (taskAPI_update i
             \<lparr>u_title = None, u_description = None, u_status = Some s,
              u_priority = None, u_due_date = None\<rparr>),
            sent w taskAPI_getAll]"
    "tasks (handleUpdateStatus (Fulfilled u) (Fulfilled d) i s w) = data_or_empty d"
    "tasks (handleUpdateStatus (Fulfilled u) (Rejected f) i s w) = tasks w"
    by (simp_all add: handleUpdateStatus_def fetchTasks_events fetchTasks_tasks send_def
        sent_def)
  have delete:
    "events (handleDeleteTask True (Fulfilled u) rf i w)
        = events w @ [sent w (taskAPI_delete i), sent w taskAPI_getAll]"
    "tasks (handleDeleteTask True (Fulfilled u) (Fulfilled d) i w) = data_or_empty d"
    "tasks (handleDeleteTask True (Fulfilled u) (Rejected f) i w) = tasks w"
    by (simp_all add: handleDeleteTask_def fetchTasks_events fetchTasks_tasks send_def
        sent_def)
  have promote:
    "events (handlePromoteUser True (Fulfilled u) ru rt i wa)
        = events wa @ [sent wa (adminAPI_promoteUser i),
            sent wa adminAPI_getAllUsers, sent wa adminAPI_getAllTasks]"
    "users (handlePromoteUser True (Fulfilled u) (Fulfilled du) (Fulfilled dt) i wa)
        = data_or_empty du"
    "ad_tasks (handlePromoteUser True (Fulfilled u) (Fulfilled du) (Fulfilled dt) i wa)
        = data_or_empty dt"
    "users (handlePromoteUser True (Fulfilled u) (Rejected f) rt i wa) = users wa"
    "ad_tasks (handlePromoteUser True (Fulfilled u) (Rejected f) rt i wa) = ad_tasks wa"
    "users (handlePromoteUser True (Fulfilled u) ru (Rejected f) i wa) = users wa"
    "ad_tasks (handlePromoteUser True (Fulfilled u) ru (Rejected f) i wa) = ad_tasks wa"
    by (simp_all add: handlePromoteUser_def fetchData_events fetchData_lists send_def
        sent_def)
  have force:
    "events (ad_handleDeleteTask True (Fulfilled u) ru rt i wa)
        = events wa @ [sent wa (adminAPI_deleteTask i),
            sent wa adminAPI_getAllUsers, sent wa adminAPI_getAllTasks]"
    "users (ad_handleDeleteTask True (Fulfilled u) (Fulfilled du) (Fulfilled dt) i wa)
        = data_or_empty du"
    "ad_tasks (ad_handleDeleteTask True (Fulfilled u) (Fulfilled du) (Fulfilled dt) i wa)
        = data_or_empty dt"
    "users (ad_handleDeleteTask True (Fulfilled u) (Rejected f) rt i wa) = users wa"
    "ad_tasks (ad_handleDeleteTask True (Fulfilled u) (Rejected f) rt i wa) = ad_tasks wa"
    "users (ad_handleDeleteTask True (Fulfilled u) ru (Rejected f) i wa) = users wa"
    "ad_tasks (ad_handleDeleteTask True (Fulfilled u) ru (Rejected f) i wa) = ad_tasks wa"
    by (simp_all add: ad_handleDeleteTask_def fetchData_events fetchData_lists send_def
        sent_def)
  have td_save:
    "task wd = Some td \<and> trim (td_editTitle wd) \<noteq> [] \<longrightarrow>
      events (td_handleSaveEdit (Fulfilled u) rfd wd)
        = events wd @ [sent wd (taskAPI_update (task_id td)
             \<lparr>u_title = Some (td_editTitle wd),
              u_description = Some (td_editDescription wd), u_status = None,
              u_priority = Some (td_editPriority wd),
              u_due_date = Some (td_editDueDate wd)\<rparr>),
            sent wd (taskAPI_getById (parseInt (params_id wd)))]
      \<and> task (td_handleSaveEdit (Fulfilled u) (Fulfilled dd) wd) = dd
      \<and> task (td_handleSaveEdit (Fulfilled u) (Rejected f) wd) = Some td"
    by (simp add: td_handleSaveEdit_def fetchTask_events fetchTask_task send_def sent_def)
  have td_status:
    "task wd = Some td \<longrightarrow>
      events (td_handleUpdateStatus (Fulfilled u) rfd s wd)
        = events wd @ [sent wd (taskAPI_update (task_id td)
             \<lparr>u_title = None, u_description = None, u_status = Some s,
              u_priority = None, u_due_date = None\<rparr>),
            sent wd (taskAPI_getById (parseInt (params_id wd)))]
      \<and> task (td_handleUpdateStatus (Fulfilled u) (Fulfilled dd) s wd) = dd
      \<and> task (td_handleUpdateStatus (Fulfilled u) (Rejected f) s wd) = Some td"
    by (simp add: td_handleUpdateStatus_def fetchTask_events fetchTask_task send_def sent_def)
  have td_delete:
    "task wd = Some td \<longrightarrow>
      events (td_handleDeleteTask True (Fulfilled u) wd)
        = events wd @ [sent wd (taskAPI_delete (task_id td)), Push ''/dashboard'']"
    by (simp add: td_handleDeleteTask_def send_def router_push_def)
  have mount:
    "events (dashboard_user_effect (Some usr) rf (DashboardPage b))
        = events b @ [sent b taskAPI_getAll]"
    "tasks (dashboard_user_effect (Some usr) (Fulfilled d) (DashboardPage b))
        = data_or_empty d"
    by (simp_all add: dashboard_user_effect_def fetchTasks_events fetchTasks_tasks
        DashboardPage_def sent_def)
  from create save status delete promote force td_save td_status td_delete mount
  show ?thesis
    by (intro conjI)
qed

text \<open>
  The amended statement at work. The dashboard's delete of task 7 succeeds and the refetch
  delivers the one remaining task; the admin page's promotion of user 1 succeeds and its
  refetch delivers the user as an admin; the task page's delete succeeds.
\<close>

theorem mutation_then_refetch_witness:
  "events (handleDeleteTask True (Fulfilled ()) (Fulfilled (Some [ex_done])) (Num 7) ex_dashboard)
     = [Http \<lparr>req_method = DELETE, url = ''/tasks/7'', data = NoBody,
               baseURL = ''http://localhost:8080/api'', authorization = Some ''Bearer abc''\<rparr>,
        Http \<lparr>req_method = GET, url = ''/tasks'', data = NoBody,
               baseURL = ''http://localhost:8080/api'', authorization = Some ''Bearer abc''\<rparr>]
   \<and> tasks (handleDeleteTask True (Fulfilled ()) (Fulfilled (Some [ex_done])) (Num 7) ex_dashboard)
     = [ex_done]
   \<and> users (handlePromoteUser True (Fulfilled ()) (Fulfilled (Some [ex_admin])) (Fulfilled None)
        (Num 1) ex_admin_page) = [ex_admin]
   \<and> ad_tasks (handlePromoteUser True (Fulfilled ()) (Fulfilled (Some [ex_admin])) (Fulfilled None)
        (Num 1) ex_admin_page) = []
   \<and> events (td_handleSaveEdit (Fulfilled ()) (Fulfilled (Some ex_done)) ex_detail_editing)
     = events ex_detail_editing
       @ [Http \<lparr>req_method = PUT, url = ''/tasks/7'',
            data = UpdateBody \<lparr>u_title = Some ''Buy oat milk'', u_description = Some [],
                     u_status = None, u_priority = Some Low, u_due_date = Some []\<rparr>,
            baseURL = ''http://localhost:8080/api'', authorization = Some ''Bearer abc''\<rparr>,
          Http \<lparr>req_method = GET, url = ''/tasks/7'', data = NoBody,
            baseURL = ''http://localhost:8080/api'', authorization = Some ''Bearer abc''\<rparr>]
   \<and> events (td_handleDeleteTask True (Fulfilled ()) ex_detail_editing)
     = events ex_detail_editing
       @ [Http \<lparr>req_method = DELETE, url = ''/tasks/7'', data = NoBody,
            baseURL = ''http://localhost:8080/api'', authorization = Some ''Bearer abc''\<rparr>,
          Push ''/dashboard'']"
  using mutation_then_refetch
    [where w = ex_dashboard and wa = ex_admin_page and wd = ex_detail_editing
       and td = ex_task and u = "()" and i = "Num 7" and d = "Some [ex_done]"
       and rf = "Fulfilled (Some [ex_done])" and rfd = "Fulfilled (Some ex_done)"]
    mutation_then_refetch
    [where wa = ex_admin_page and u = "()" and i = "Num 1" and du = "Some [ex_admin]"
       and dt = None]
  by (simp add: ex_dashboard_fields ex_admin_page_fields ex_detail_editing_fields
      trim_examples ex_sent data_or_empty_def taskAPI_delete_def taskAPI_getAll_def
      taskAPI_update_def taskAPI_getById_def api_get_def api_put_def api_delete_def
      parseInt_7 dec.simps ex_task_def)


section \<open>Status changes (C3)\<close>

text \<open>
  C3. A status change sends one \<^verbatim>\<open>PUT /tasks/{id}\<close> whose payload has the field \<^verbatim>\<open>status\<close>
  and no other field: title, description, priority and due date are absent from it. The
  request is the same whether or not the form is in edit mode: on the dashboard the
  handler commutes with opening or closing the edit dialog, on the task page with
  switching \<^verbatim>\<open>isEditing\<close>. After the \<^verbatim>\<open>PUT\<close> the only further request is the refetch that
  follows a success. (The task page's handler acts once a task is loaded.)
\<close>

theorem status_change_sends_status_only:
  fixes w :: dashboard and wd :: task_detail
  shows
  "events (handleUpdateStatus r rf i s w)
     = events w
       @ sent w (api_put (''/tasks/'' @ num_str i)
           (UpdateBody \<lparr>u_title = None, u_description = None, u_status = Some s,
                        u_priority = None, u_due_date = None\<rparr>))
         # (case r of Fulfilled u \<Rightarrow> [sent w taskAPI_getAll] | Rejected f \<Rightarrow> [])
   \<and> handleUpdateStatus r rf i s (w\<lparr>showEditModal := b, editingTask := e\<rparr>)
     = (handleUpdateStatus r rf i s w)\<lparr>showEditModal := b, editingTask := e\<rparr>
   \<and> (task wd = Some td \<longrightarrow>
        events (td_handleUpdateStatus r rfd s wd)
          = events wd
            @ sent wd (api_put (''/tasks/'' @ num_str (task_id td))
                (UpdateBody \<lparr>u_title = None, u_description = None, u_status = Some s,
                             u_priority = None, u_due_date = None\<rparr>))
              # (case r of
                   Fulfilled u \<Rightarrow> [sent wd (taskAPI_getById (parseInt (params_id wd)))]
                 | Rejected f \<Rightarrow> []))
   \<and> td_handleUpdateStatus r rfd s (wd\<lparr>isEditing := b\<rparr>)
     = (td_handleUpdateStatus r rfd s wd)\<lparr>isEditing := b\<rparr>"
proof -
  have dash:
    "events (handleUpdateStatus r rf i s w)
       = events w
         @ sent w (api_put (''/tasks/'' @ num_str i)
             (UpdateBody \<lparr>u_title = None, u_description = None, u_status = Some s,
                          u_priority = None, u_due_date = None\<rparr>))
           # (case r of Fulfilled u \<Rightarrow> [sent w taskAPI_getAll] | Rejected f \<Rightarrow> [])"
    by (simp add: handleUpdateStatus_def fetchTasks_events send_def sent_def
        taskAPI_update_def split: reply.splits)
  have dash_mode:
    "handleUpdateStatus r rf i s (w\<lparr>showEditModal := b, editingTask := e\<rparr>)
       = (handleUpdateStatus r rf i s w)\<lparr>showEditModal := b, editingTask := e\<rparr>"
    by (simp add: handleUpdateStatus_def fetchTasks_def send_def sent_def Let_def
        split: reply.splits)
  have detail:
    "task wd = Some td \<longrightarrow>
       events (td_handleUpdateStatus r rfd s wd)
         = events wd
           @ sent wd (api_put (''/tasks/'' @ num_str (task_id td))
               (UpdateBody \<lparr>u_title = None, u_description = None, u_status = Some s,
                            u_priority = None, u_due_date = None\<rparr>))
             # (case r of
                  Fulfilled u \<Rightarrow> [sent wd (taskAPI_getById (parseInt (params_id wd)))]
                | Rejected f \<Rightarrow> [])"
    by (simp add: td_handleUpdateStatus_def fetchTask_events send_def sent_def
        taskAPI_update_def split: reply.splits)
  have detail_mode:
    "td_handleUpdateStatus r rfd s (wd\<lparr>isEditing := b\<rparr>)
       = (td_handleUpdateStatus r rfd s wd)\<lparr>isEditing := b\<rparr>"
    by (simp add: td_handleUpdateStatus_def fetchTask_def send_def sent_def Let_def
        split: reply.splits option.splits)
  from dash dash_mode detail detail_mode show ?thesis
    by (intro conjI)
qed

text \<open>
  On the task page of task 7, in viewing and in editing state alike, marking the task
  completed sends the same single-field \<^verbatim>\<open>PUT /tasks/7\<close>.
\<close>

theorem status_change_sends_status_only_witness:
  "task ex_detail = Some ex_task
   \<and> events (td_handleUpdateStatus (Rejected NetworkError) (Fulfilled None) Completed ex_detail)
     = events ex_detail
       @ [Http \<lparr>req_method = PUT, url = ''/tasks/7'',
            data = UpdateBody \<lparr>u_title = None, u_description = None,
                     u_status = Some Completed, u_priority = None, u_due_date = None\<rparr>,
            baseURL = ''http://localhost:8080/api'', authorization = Some ''Bearer abc''\<rparr>]
   \<and> events (td_handleUpdateStatus (Rejected NetworkError) (Fulfilled None) Completed
        ex_detail_editing)
     = events ex_detail_editing
       @ [Http \<lparr>req_method = PUT, url = ''/tasks/7'',
            data = UpdateBody \<lparr>u_title = None, u_description = None,
                     u_status = Some Completed, u_priority = None, u_due_date = None\<rparr>,
            baseURL = ''http://localhost:8080/api'', authorization = Some ''Bearer abc''\<rparr>]"
  using status_change_sends_status_only
    [where wd = ex_detail and td = ex_task and r = "Rejected NetworkError"
       and rfd = "Fulfilled None" and s = Completed]
    status_change_sends_status_only
    [where wd = ex_detail_editing and td = ex_task and r = "Rejected NetworkError"
       and rfd = "Fulfilled None" and s = Completed]
  by (simp add: ex_detail_fields ex_detail_editing_fields ex_sent api_put_def dec.simps
      ex_task_def)


section \<open>Saving a full-field edit (C4)\<close>

text \<open>
  C4, as stated, does not hold: a successful save does not discard the edit buffer, and
  the refetch that follows it need not bring fresh data into the page. First, the edit
  dialog of the dashboard holds the title \<^verbatim>\<open>Buy oat milk\<close>; the save succeeds and the
  refetch delivers a list: the dialog is closed and no task is under edit, yet the buffer
  still holds \<^verbatim>\<open>Buy oat milk\<close>. Second, the task page is editing task 7 with the same
  title; the save succeeds and the refetch is rejected: \<^verbatim>\<open>isEditing\<close> is false, the buffer
  still holds \<^verbatim>\<open>Buy oat milk\<close>, and the page still holds the task as it was fetched before
  the save, under the title \<^verbatim>\<open>Buy milk\<close>, next to the message of the failed load.
\<close>

theorem save_keeps_buffer_counterexample:
  "showEditModal (handleSaveEdit (Fulfilled ()) (Fulfilled (Some [ex_done]))
      (ex_editing\<lparr>editTitle := ''Buy oat milk''\<rparr>)) = False
   \<and> editingTask (handleSaveEdit (Fulfilled ()) (Fulfilled (Some [ex_done]))
      (ex_editing\<lparr>editTitle := ''Buy oat milk''\<rparr>)) = None
   \<and> tasks (handleSaveEdit (Fulfilled ()) (Fulfilled (Some [ex_done]))
      (ex_editing\<lparr>editTitle := ''Buy oat milk''\<rparr>)) = [ex_done]
   \<and> editTitle (handleSaveEdit (Fulfilled ()) (Fulfilled (Some [ex_done]))
      (ex_editing\<lparr>editTitle := ''Buy oat milk''\<rparr>)) = ''Buy oat milk''
   \<and> isEditing (td_handleSaveEdit (Fulfilled ()) (Rejected NetworkError) ex_detail_editing)
     = False
   \<and> td_editTitle (td_handleSaveEdit (Fulfilled ()) (Rejected NetworkError) ex_detail_editing)
     = ''Buy oat milk''
   \<and> task (td_handleSaveEdit (Fulfilled ()) (Rejected NetworkError) ex_detail_editing)
     = Some ex_task
   \<and> task_title ex_task = ''Buy milk''
   \<and> td_error (td_handleSaveEdit (Fulfilled ()) (Rejected NetworkError) ex_detail_editing)
     = ''Failed to load task details''"
  by (simp add: handleSaveEdit_def td_handleSaveEdit_def fetchTasks_def fetchTask_def
      send_def Let_def data_or_empty_def ex_editing_fields ex_detail_editing_fields
      trim_def is_white_def ex_task_def)

text \<open>
  C4, amended. Take a save that reaches the \<^verbatim>\<open>PUT\<close>: a task is under edit and the title
  is not blank. Each outcome is given as the whole state after the handler, so every
  field not named in it is as before.

  When the \<^verbatim>\<open>PUT\<close> succeeds, edit mode is left (on the dashboard the dialog closes and no
  task is under edit; on the task page \<^verbatim>\<open>isEditing\<close> is false), the error message is
  cleared and the refetch is sent. When the refetch succeeds, the stored data is the
  delivered data: the dashboard's list is the delivered list, the task page's task is the
  delivered task, whose four fields also overwrite the buffer. When the refetch is
  rejected, the data stored before the save stays and the message of the failed load is
  set; on the task page a \<^verbatim>\<open>null\<close> body does the same, except that the stored task becomes
  \<^verbatim>\<open>null\<close>. The save itself never clears the four buffer fields: the dashboard keeps them
  (the next opening of the dialog overwrites all four), the task page keeps them unless
  the refetch delivers a task.

  When the \<^verbatim>\<open>PUT\<close> is rejected, no refetch is sent; the page stays in edit mode with the
  task under edit, the buffer and the fetched data as they were, and the inline error
  message is set to a non-empty text. A save with a blank title sets the message
  \<^verbatim>\<open>Title is required\<close> and changes nothing else. The handlers are total functions: no
  outcome escapes them.
\<close>

theorem save_edit_outcomes:
  fixes w :: dashboard and wd :: task_detail and t :: task and td :: task and u :: unit
  defines "put \<equiv> sent w (taskAPI_update (task_id t)
             \<lparr>u_title = Some (editTitle w), u_description = Some (editDescription w),
              u_status = None, u_priority = Some (editPriority w),
              u_due_date = Some (editDueDate w)\<rparr>)"
    and "td_put \<equiv> sent wd (taskAPI_update (task_id td)
             \<lparr>u_title = Some (td_editTitle wd),
              u_description = Some (td_editDescription wd), u_status = None,
              u_priority = Some (td_editPriority wd),
              u_due_date = Some (td_editDueDate wd)\<rparr>)"
    and "td_get \<equiv> sent wd (taskAPI_getById (parseInt (params_id wd)))"
  shows
  "(editingTask w = Some t \<and> trim (editTitle w) \<noteq> [] \<longrightarrow>
      handleSaveEdit (Fulfilled u) (Fulfilled d) w
        = w\<lparr>events := events w @ [put, sent w taskAPI_getAll], error := [],
             showEditModal := False, editingTask := None,
             tasks := data_or_empty d, tasksLoading := False\<rparr>
      \<and> handleSaveEdit (Fulfilled u) (Rejected f') w
        = w\<lparr>events := events w @ [put, sent w taskAPI_getAll],
             error := ''Failed to load tasks'',
             showEditModal := False, editingTask := None, tasksLoading := False\<rparr>
      \<and> editTitle (handleSaveEdit (Fulfilled u) rf w) = editTitle w
      \<and> editDescription (handleSaveEdit (Fulfilled u) rf w) = editDescription w
      \<and> editPriority (handleSaveEdit (Fulfilled u) rf w) = editPriority w
      \<and> editDueDate (handleSaveEdit (Fulfilled u) rf w) = editDueDate w
      \<and> handleSaveEdit (Rejected f) rf w
        = w\<lparr>events := events w @ [put],
             error := or_else (response_error f) ''Failed to update task''\<rparr>)
   \<and> (editingTask w = Some t \<and> trim (editTitle w) = [] \<longrightarrow>
      handleSaveEdit r rf w = w\<lparr>error := ''Title is required''\<rparr>)
   \<and> handleOpenEdit t2 (w2\<lparr>editTitle := x1, editDescription := x2, editPriority := x3,
                            editDueDate := x4\<rparr>) = handleOpenEdit t2 w2
   \<and> or_else (response_error f) ''Failed to update task'' \<noteq> []
   \<and> (task wd = Some td \<and> trim (td_editTitle wd) \<noteq> [] \<longrightarrow>
      td_handleSaveEdit (Fulfilled u) (Fulfilled (Some t')) wd
        = wd\<lparr>events := events wd @ [td_put, td_get], td_error := [], isEditing := False,
              task := Some t', td_editTitle := task_title t',
              td_editDescription := task_description t',
              td_editPriority := task_priority t', td_editDueDate := task_due_date t',
              loading := False\<rparr>
      \<and> td_handleSaveEdit (Fulfilled u) (Fulfilled None) wd
        = wd\<lparr>events := events wd @ [td_put, td_get], isEditing := False, task := None,
              td_error := ''Failed to load task details'', loading := False\<rparr>
      \<and> td_handleSaveEdit (Fulfilled u) (Rejected f') wd
        = wd\<lparr>events := events wd @ [td_put, td_get], isEditing := False,
              td_error := ''Failed to load task details'', loading := False\<rparr>
      \<and> td_handleSaveEdit (Rejected f) rfd wd
        = wd\<lparr>events := events wd @ [td_put],
              td_error := or_else (response_error f) ''Failed to update task''\<rparr>)
   \<and> (task wd = Some td \<and> trim (td_editTitle wd) = [] \<longrightarrow>
      td_handleSaveEdit r rfd wd = wd\<lparr>td_error := ''Title is required''\<rparr>)"
proof -
  have ok:
    "editingTask w = Some t \<and> trim (editTitle w) \<noteq> [] \<longrightarrow>
      handleSaveEdit (Fulfilled u) (Fulfilled d) w
        = w\<lparr>events := events w @ [put, sent w taskAPI_getAll], error := [],
             showEditModal := False, editingTask := None,
             tasks := data_or_empty d, tasksLoading := False\<rparr>
      \<and> handleSaveEdit (Fulfilled u) (Rejected f') w
        = w\<lparr>events := events w @ [put, sent w taskAPI_getAll],
             error := ''Failed to load tasks'',
             showEditModal := False, editingTask := None, tasksLoading := False\<rparr>"
    by (simp add: put_def handleSaveEdit_def fetchTasks_def send_def sent_def Let_def)
  have buffer:
    "editingTask w = Some t \<and> trim (editTitle w) \<noteq> [] \<longrightarrow>
      editTitle (handleSaveEdit (Fulfilled u) rf w) = editTitle w
      \<and> editDescription (handleSaveEdit (Fulfilled u) rf w) = editDescription w
      \<and> editPriority (handleSaveEdit (Fulfilled u) rf w) = editPriority w
      \<and> editDueDate (handleSaveEdit (Fulfilled u) rf w) = editDueDate w"
    by (simp add: handleSaveEdit_def fetchTasks_def send_def Let_def split: reply.splits)
  have failed:
    "editingTask w = Some t \<and> trim (editTitle w) \<noteq> [] \<longrightarrow>
      handleSaveEdit (Rejected f) rf w
        = w\<lparr>events := events w @ [put],
             error := or_else (response_error f) ''Failed to update task''\<rparr>"
    by (simp add: put_def handleSaveEdit_def send_def sent_def)
  have blank:
    "editingTask w = Some t \<and> trim (editTitle w) = [] \<longrightarrow>
      handleSaveEdit r rf w = w\<lparr>error := ''Title is required''\<rparr>"
    by (simp add: handleSaveEdit_def)
  have reopen:
    "handleOpenEdit t2 (w2\<lparr>editTitle := x1, editDescription := x2, editPriority := x3,
                            editDueDate := x4\<rparr>) = handleOpenEdit t2 w2"
    by (simp add: handleOpenEdit_def)
  have msg: "or_else (response_error f) ''Failed to update task'' \<noteq> []"
    by (simp add: or_else_nonempty)
  have td_ok:
    "task wd = Some td \<and> trim (td_editTitle wd) \<noteq> [] \<longrightarrow>
      td_handleSaveEdit (Fulfilled u) (Fulfilled (Some t')) wd
        = wd\<lparr>events := events wd @ [td_put, td_get], td_error := [], isEditing := False,
              task := Some t', td_editTitle := task_title t',
              td_editDescription := task_description t',
              td_editPriority := task_priority t', td_editDueDate := task_due_date t',
              loading := False\<rparr>
      \<and> td_handleSaveEdit (Fulfilled u) (Fulfilled None) wd
        = wd\<lparr>events := events wd @ [td_put, td_get], isEditing := False, task := None,
              td_error := ''Failed to load task details'', loading := False\<rparr>
      \<and> td_handleSaveEdit (Fulfilled u) (Rejected f') wd
        = wd\<lparr>events := events wd @ [td_put, td_get], isEditing := False,
              td_error := ''Failed to load task details'', loading := False\<rparr>"
    by (simp add: td_put_def td_get_def td_handleSaveEdit_def fetchTask_def send_def
        sent_def Let_def)
  have td_failed:
    "task wd = Some td \<and> trim (td_editTitle wd) \<noteq> [] \<longrightarrow>
      td_handleSaveEdit (Rejected f) rfd wd
        = wd\<lparr>events := events wd @ [td_put],
              td_error := or_else (response_error f) ''Failed to update task''\<rparr>"
    by (simp add: td_put_def td_handleSaveEdit_def send_def sent_def)
  have td_blank:
    "task wd = Some td \<and> trim (td_editTitle wd) = [] \<longrightarrow>
      td_handleSaveEdit r rfd wd = wd\<lparr>td_error := ''Title is required''\<rparr>"
    by (simp add: td_handleSaveEdit_def)
  from ok buffer failed blank reopen msg td_ok td_failed td_blank show ?thesis
    by blast
qed

text \<open>
  The edit dialog of the example dashboard and the editing task page. Each is saved with
  success, the refetch delivering fresh data, and once more with the \<^verbatim>\<open>PUT\<close> rejected
  under the backend's message \<^verbatim>\<open>title too long\<close>.
\<close>

theorem save_edit_outcomes_witness:
  "editingTask ex_editing = Some ex_task \<and> trim (editTitle ex_editing) \<noteq> []
   \<and> task ex_detail_editing = Some ex_task \<and> trim (td_editTitle ex_detail_editing) \<noteq> []
   \<and> showEditModal (handleSaveEdit (Fulfilled ()) (Fulfilled (Some [ex_done])) ex_editing)
     = False
   \<and> editingTask (handleSaveEdit (Fulfilled ()) (Fulfilled (Some [ex_done])) ex_editing) = None
   \<and> tasks (handleSaveEdit (Fulfilled ()) (Fulfilled (Some [ex_done])) ex_editing) = [ex_done]
   \<and> tasks (handleSaveEdit (Fulfilled ()) (Rejected NetworkError) ex_editing) = [ex_task]
   \<and> handleSaveEdit (Rejected (HttpError 400 (Some ''title too long''))) (Fulfilled None) ex_editing
     = ex_editing\<lparr>events := [Http \<lparr>req_method = PUT, url = ''/tasks/7'',
          data = UpdateBody \<lparr>u_title = Some ''Buy milk'', u_description = Some [],
                   u_status = None, u_priority = Some Low, u_due_date = Some []\<rparr>,
          baseURL = ''http://localhost:8080/api'', authorization = Some ''Bearer abc''\<rparr>],
        error := ''title too long''\<rparr>
   \<and> isEditing (td_handleSaveEdit (Fulfilled ()) (Fulfilled (Some ex_done)) ex_detail_editing)
     = False
   \<and> task (td_handleSaveEdit (Fulfilled ()) (Fulfilled (Some ex_done)) ex_detail_editing)
     = Some ex_done
   \<and> td_editTitle (td_handleSaveEdit (Fulfilled ()) (Fulfilled (Some ex_done)) ex_detail_editing)
     = ''Pay rent''
   \<and> isEditing (td_handleSaveEdit (Rejected (HttpError 400 (Some ''title too long'')))
        (Fulfilled None) ex_detail_editing) = True
   \<and> td_editTitle (td_handleSaveEdit (Rejected (HttpError 400 (Some ''title too long'')))
        (Fulfilled None) ex_detail_editing) = ''Buy oat milk''
   \<and> td_error (td_handleSaveEdit (Rejected (HttpError 400 (Some ''title too long'')))
        (Fulfilled None) ex_detail_editing) = ''title too long''"
  using save_edit_outcomes
    [where w = ex_editing and t = ex_task and wd = ex_detail_editing and td = ex_task
       and u = "()" and d = "Some [ex_done]" and f' = NetworkError and t' = ex_done
       and rf = "Fulfilled None" and rfd = "Fulfilled None"
       and f = "HttpError 400 (Some ''title too long'')"]
  by (simp add: ex_editing_fields ex_detail_editing_fields trim_examples ex_sent
      taskAPI_update_def api_put_def dec.simps ex_task_def ex_done_def or_else_def
      data_or_empty_def)


section \<open>The pre-flight check of a creation (C5)\<close>

text \<open>
  C5. When the title typed into the creation form is empty or consists of white space
  only, \<^verbatim>\<open>handleCreateTask\<close> ends with the message \<^verbatim>\<open>Title is required\<close> and nothing else
  changed: no request was sent (the events are as before) and the task list is as before,
  whatever the backend would have answered.
\<close>

theorem blank_title_is_refused_before_any_request:
  "(\<forall>c\<in>set (title w). is_white c) \<Longrightarrow>
     handleCreateTask r rf w = w\<lparr>error := ''Title is required''\<rparr>
     \<and> events (handleCreateTask r rf w) = events w
     \<and> tasks (handleCreateTask r rf w) = tasks w
     \<and> error (handleCreateTask r rf w) = ''Title is required''"
  by (simp add: handleCreateTask_def trim_empty_iff)

text \<open>The example dashboard with an empty title, and with a title of two spaces.\<close>

theorem blank_title_is_refused_witness:
  "handleCreateTask (Fulfilled ()) (Fulfilled (Some [ex_done])) (ex_dashboard\<lparr>title := []\<rparr>)
     = ex_dashboard\<lparr>title := [], error := ''Title is required''\<rparr>
   \<and> events (handleCreateTask (Fulfilled ()) (Fulfilled (Some [ex_done]))
        (ex_dashboard\<lparr>title := ''  ''\<rparr>)) = []
   \<and> tasks (handleCreateTask (Fulfilled ()) (Fulfilled (Some [ex_done]))
        (ex_dashboard\<lparr>title := ''  ''\<rparr>)) = [ex_task]
   \<and> error (handleCreateTask (Fulfilled ()) (Fulfilled (Some [ex_done]))
        (ex_dashboard\<lparr>title := ''  ''\<rparr>)) = ''Title is required''"
  using blank_title_is_refused_before_any_request
    [of "ex_dashboard\<lparr>title := ''  ''\<rparr>" "Fulfilled ()" "Fulfilled (Some [ex_done])"]
    blank_title_is_refused_before_any_request
    [of "ex_dashboard\<lparr>title := []\<rparr>" "Fulfilled ()" "Fulfilled (Some [ex_done])"]
  by (simp add: is_white_def ex_dashboard_fields)


section \<open>The Authorization header (C6)\<close>

text \<open>
  C6. A token is present when \<^verbatim>\<open>localStorage\<close> holds a non-empty string under \<^verbatim>\<open>token\<close>:
  the request then carries \<^verbatim>\<open>Authorization: Bearer <token>\<close>. With no item stored the
  header is omitted, and so it is for a stored empty string, which the interceptor's test
  takes for no token. In every case the instance hands on the call with its verb, URL
  and body untouched, and \<^verbatim>\<open>send\<close> appends exactly that request: no call is stopped for
  want of a token.
\<close>

theorem bearer_header_follows_stored_token:
  "authorization (api env (Some (x # xs)) c) = Some (''Bearer '' @ x # xs)
   \<and> authorization (api env None c) = None
   \<and> authorization (api env (Some []) c) = None
   \<and> req_method (api env tok c) = req_method c
   \<and> url (api env tok c) = url c
   \<and> data (api env tok c) = data c
   \<and> baseURL (api env tok c) = API_URL env
   \<and> events (send c w) = events w @ [Http (api (NEXT_PUBLIC_API_URL w) (token w) c)]
   \<and> token (send c w) = token w"
  by (simp add: api_def request_interceptor_def truthy_def send_def sent_def
      split: option.splits)


section \<open>The displayed list (C7)\<close>

text \<open>
  C7. A fetch stores the delivered list as it is (the empty list for a \<^verbatim>\<open>null\<close> body) and
  leaves the selected filter alone. The displayed list is the stored list when the filter
  is \<^verbatim>\<open>all\<close>, and otherwise the stored list filtered to the tasks of the selected status;
  in both cases it is a subsequence of the stored list, so the order in which the backend
  delivered the tasks is kept. No handler of the dashboard writes the list otherwise:
  after any of them the stored list is the one before, or the one a refetch delivered.
\<close>

theorem displayed_list_keeps_backend_order:
  "tasks (fetchTasks (Fulfilled (Some ts)) w) = ts
   \<and> tasks (fetchTasks (Fulfilled None) w) = []
   \<and> filterStatus (fetchTasks rf w) = filterStatus w
   \<and> filteredTasks w =
       (case filterStatus w of
          All \<Rightarrow> tasks w
        | FPending \<Rightarrow> filter (\<lambda>t. task_status t = Pending) (tasks w)
        | FIn_progress \<Rightarrow> filter (\<lambda>t. task_status t = In_progress) (tasks w)
        | FCompleted \<Rightarrow> filter (\<lambda>t. task_status t = Completed) (tasks w))
   \<and> subseq (filteredTasks w) (tasks w)
   \<and> subseq (filteredTasks (fetchTasks (Fulfilled (Some ts)) w)) ts
   \<and> tasks (handleOpenEdit t w) = tasks w
   \<and> tasks (handleLogout w) = tasks w
   \<and> (tasks (handleCreateTask r rf w) = tasks w
        \<or> (\<exists>d. rf = Fulfilled d \<and> tasks (handleCreateTask r rf w) = data_or_empty d))
   \<and> (tasks (handleSaveEdit r rf w) = tasks w
        \<or> (\<exists>d. rf = Fulfilled d \<and> tasks (handleSaveEdit r rf w) = data_or_empty d))
   \<and> (tasks (handleUpdateStatus r rf i s w) = tasks w
        \<or> (\<exists>d. rf = Fulfilled d \<and> tasks (handleUpdateStatus r rf i s w) = data_or_empty d))
   \<and> (tasks (handleDeleteTask ok r rf i w) = tasks w
        \<or> (\<exists>d. rf = Fulfilled d \<and> tasks (handleDeleteTask ok r rf i w) = data_or_empty d))"
proof -
  have stored:
    "tasks (fetchTasks (Fulfilled (Some ts)) w) = ts"
    "tasks (fetchTasks (Fulfilled None) w) = []"
    "filterStatus (fetchTasks rf w) = filterStatus w"
    by (simp_all add: fetchTasks_def send_def data_or_empty_def Let_def split: reply.splits)
  have shown: "filteredTasks w' =
       (case filterStatus w' of
          All \<Rightarrow> tasks w'
        | FPending \<Rightarrow> filter (\<lambda>t. task_status t = Pending) (tasks w')
        | FIn_progress \<Rightarrow> filter (\<lambda>t. task_status t = In_progress) (tasks w')
        | FCompleted \<Rightarrow> filter (\<lambda>t. task_status t = Completed) (tasks w'))" for w'
    by (cases "filterStatus w'") (simp_all add: filteredTasks_def status_str_eq)
  have sub: "subseq (filteredTasks w') (tasks w')" for w'
    by (simp add: filteredTasks_def)
  have sub_fetched: "subseq (filteredTasks (fetchTasks (Fulfilled (Some ts)) w)) ts"
    using sub [of "fetchTasks (Fulfilled (Some ts)) w"] by (simp add: stored)
  have fetched:
    "tasks (fetchTasks rf w') = tasks w'
       \<or> (\<exists>d. rf = Fulfilled d \<and> tasks (fetchTasks rf w') = data_or_empty d)" for w'
    by (cases rf) (simp_all add: fetchTasks_tasks)
  have plain: "tasks (handleOpenEdit t w) = tasks w" "tasks (handleLogout w) = tasks w"
    by (simp_all add: handleOpenEdit_def handleLogout_def router_push_def logout_def)
  have create:
    "tasks (handleCreateTask r rf w) = tasks w
       \<or> (\<exists>d. rf = Fulfilled d \<and> tasks (handleCreateTask r rf w) = data_or_empty d)"
    by (cases r; cases rf)
      (simp_all add: handleCreateTask_def fetchTasks_tasks send_def Let_def)
  have save:
    "tasks (handleSaveEdit r rf w) = tasks w
       \<or> (\<exists>d. rf = Fulfilled d \<and> tasks (handleSaveEdit r rf w) = data_or_empty d)"
    by (cases r; cases rf; cases "editingTask w")
      (simp_all add: handleSaveEdit_def fetchTasks_tasks send_def Let_def)
  have status:
    "tasks (handleUpdateStatus r rf i s w) = tasks w
       \<or> (\<exists>d. rf = Fulfilled d \<and> tasks (handleUpdateStatus r rf i s w) = data_or_empty d)"
    by (cases r; cases rf)
      (simp_all add: handleUpdateStatus_def fetchTasks_tasks send_def Let_def)
  have delete:
    "tasks (handleDeleteTask ok r rf i w) = tasks w
       \<or> (\<exists>d. rf = Fulfilled d \<and> tasks (handleDeleteTask ok r rf i w) = data_or_empty d)"
    by (cases r; cases rf)
      (simp_all add: handleDeleteTask_def fetchTasks_tasks send_def Let_def)
  from stored shown [of w] sub [of w] sub_fetched plain create save status delete
  show ?thesis
    by (intro conjI)
qed

text \<open>
  The backend delivers a completed task before a pending one: the dashboard stores them
  in that order and shows, under each filter, the matching ones in that order.
\<close>

theorem displayed_list_keeps_backend_order_witness:
  "tasks (fetchTasks (Fulfilled (Some [ex_done, ex_task, ex_done])) ex_dashboard)
     = [ex_done, ex_task, ex_done]
   \<and> filteredTasks (fetchTasks (Fulfilled (Some [ex_done, ex_task, ex_done])) ex_dashboard)
     = [ex_done, ex_task, ex_done]
   \<and> filteredTasks ((fetchTasks (Fulfilled (Some [ex_done, ex_task, ex_done])) ex_dashboard)
        \<lparr>filterStatus := FCompleted\<rparr>) = [ex_done, ex_done]
   \<and> filteredTasks ((fetchTasks (Fulfilled (Some [ex_done, ex_task, ex_done])) ex_dashboard)
        \<lparr>filterStatus := FPending\<rparr>) = [ex_task]"
  using displayed_list_keeps_backend_order
    [where w = ex_dashboard and ts = "[ex_done, ex_task, ex_done]"
       and rf = "Fulfilled (Some [ex_done, ex_task, ex_done])"]
    displayed_list_keeps_backend_order
    [where w = "fetchTasks (Fulfilled (Some [ex_done, ex_task, ex_done])) ex_dashboard"]
    displayed_list_keeps_backend_order
    [where w = "(fetchTasks (Fulfilled (Some [ex_done, ex_task, ex_done])) ex_dashboard)
        \<lparr>filterStatus := FCompleted\<rparr>"]
    displayed_list_keeps_backend_order
    [where w = "(fetchTasks (Fulfilled (Some [ex_done, ex_task, ex_done])) ex_dashboard)
        \<lparr>filterStatus := FPending\<rparr>"]
  by (simp add: ex_dashboard_fields fetchTasks_tasks data_or_empty_def ex_task_def ex_done_def)


section \<open>Verbs, paths and the base URL (C8)\<close>

text \<open>
  C8. Each operation of the task client and of the admin client has the verb and the path
  of the interface table, the id written in decimal; in particular \<^verbatim>\<open>update\<close> is
  \<^verbatim>\<open>PUT /tasks/{id}\<close> and \<^verbatim>\<open>promoteUser\<close> is \<^verbatim>\<open>POST /admin/promote/{userId}\<close>. The instance
  keeps verb and path and sets the base URL: the one the environment provides when it
  provides a non-empty one, \<^verbatim>\<open>http://localhost:8080/api\<close> when the variable is unset or
  empty.
\<close>

theorem api_routes:
  "(req_method (taskAPI_create d), url (taskAPI_create d)) = (POST, ''/tasks'')
   \<and> (req_method taskAPI_getAll, url taskAPI_getAll) = (GET, ''/tasks'')
   \<and> (req_method (taskAPI_getById i), url (taskAPI_getById i)) = (GET, ''/tasks/'' @ num_str i)
   \<and> (req_method (taskAPI_update i u), url (taskAPI_update i u)) = (PUT, ''/tasks/'' @ num_str i)
   \<and> (req_method (taskAPI_delete i), url (taskAPI_delete i)) = (DELETE, ''/tasks/'' @ num_str i)
   \<and> (req_method adminAPI_getAllUsers, url adminAPI_getAllUsers) = (GET, ''/admin/users'')
   \<and> (req_method adminAPI_getAllTasks, url adminAPI_getAllTasks) = (GET, ''/admin/tasks'')
   \<and> (req_method (adminAPI_promoteUser i), url (adminAPI_promoteUser i))
       = (POST, ''/admin/promote/'' @ num_str i)
   \<and> (req_method (adminAPI_deleteTask i), url (adminAPI_deleteTask i))
       = (DELETE, ''/admin/tasks/'' @ num_str i)
   \<and> url (taskAPI_update (Num 7) u) = ''/tasks/7''
   \<and> url (adminAPI_promoteUser (Num 12)) = ''/admin/promote/12''
   \<and> req_method (api env tok c) = req_method c
   \<and> url (api env tok c) = url c
   \<and> baseURL (api (Some (x # xs)) tok c) = x # xs
   \<and> baseURL (api None tok c) = ''http://localhost:8080/api''
   \<and> baseURL (api (Some []) tok c) = ''http://localhost:8080/api''"
  by (simp add: taskAPI_create_def taskAPI_getAll_def taskAPI_getById_def taskAPI_update_def
      taskAPI_delete_def adminAPI_getAllUsers_def adminAPI_getAllTasks_def
      adminAPI_promoteUser_def adminAPI_deleteTask_def api_get_def api_post_def api_put_def
      api_delete_def api_def request_interceptor_def API_URL_def or_else_def dec.simps
      split: option.splits)


section \<open>Declined confirmations (C9)\<close>

text \<open>
  C9. When the user declines the confirmation dialog, each of the four handlers behind
  one (delete on the dashboard, delete on the task page, promote and force-delete on the
  admin page) returns the state it was given: no request, no change of the lists or of
  the error message, whatever the backend would have answered.
\<close>

theorem declined_confirm_changes_nothing:
  "handleDeleteTask False r rf i w = w
   \<and> td_handleDeleteTask False r wd = wd
   \<and> handlePromoteUser False r ru rt i wa = wa
   \<and> ad_handleDeleteTask False r ru rt i wa = wa"
  by (simp add: handleDeleteTask_def td_handleDeleteTask_def handlePromoteUser_def
      ad_handleDeleteTask_def)


section \<open>The root page (C10)\<close>

text \<open>
  C10. Once the session is resolved (\<^verbatim>\<open>loading\<close> is false), the root page asks the router
  for exactly one page: \<^verbatim>\<open>/admin\<close> for a user whose role is \<^verbatim>\<open>admin\<close>, \<^verbatim>\<open>/dashboard\<close> for a
  user of any other role, \<^verbatim>\<open>/login\<close> when there is no user. So every outcome adds a
  redirect to the events.
\<close>

theorem Home_routes_by_role:
  "Home False usr w =
     router_push
       (case usr of
          None \<Rightarrow> ''/login''
        | Some u \<Rightarrow> if user_role u = ''admin'' then ''/admin'' else ''/dashboard'') w
   \<and> events (Home False (Some (u\<lparr>user_role := ''admin''\<rparr>)) w) = events w @ [Push ''/admin'']
   \<and> events (Home False (Some ex_member) w) = events w @ [Push ''/dashboard'']
   \<and> events (Home False None w) = events w @ [Push ''/login'']
   \<and> events (Home False usr w) \<noteq> events w"
  by (simp add: Home_def router_push_def ex_member_def split: option.splits)

end
